theory Spec2Isabelle
  imports Complex_Main
begin

section \<open>The board abstraction of the move feature extractor\<close>

text \<open>
  \<^verbatim>\<open>backend/matches.py\<close> works on a chess board object of the python-chess library and on
  an evaluation engine. Neither is code of the repository. A board is modelled by the part
  of its state the extractor reads and writes: the piece placement on the squares
  \<open>0..63\<close>, the side to move and the move counter. The geometric and rule queries of the
  library and the answers of the engine are the fields of the record \<open>lib\<close>; every theorem
  below holds for all of them.
\<close>

type_synonym square = nat
type_synonym color = bool

definition WHITE :: color where "WHITE = True"
definition BLACK :: color where "BLACK = False"

datatype piece_type = PAWN | KNIGHT | BISHOP | ROOK | QUEEN | KING

datatype piece = Piece (piece_type: piece_type) (color: color)

record move =
  from_square :: square
  to_square :: square
  promotion :: "piece_type option"

record board =
  piece_on :: "square \<Rightarrow> piece option"
  turn :: color
  fullmove_number :: nat

datatype py_error = EngineError

text \<open>
  One line of an engine analysis: the principal variation \<open>pv\<close> (the key can be absent)
  and the score, already read as \<^verbatim>\<open>info['score'].relative.score(mate_score=10000)\<close>,
  with the flag \<^verbatim>\<open>info['score'].is_mate()\<close>.
\<close>

record info =
  pv :: "move list option"
  score_is_mate :: bool
  score :: int

record lib =
  attackers :: "board \<Rightarrow> color \<Rightarrow> square \<Rightarrow> square list"
  attacks :: "board \<Rightarrow> square \<Rightarrow> square list"
  push :: "board \<Rightarrow> move \<Rightarrow> board"
  is_game_over :: "board \<Rightarrow> bool"
  has_castling_rights :: "board \<Rightarrow> color \<Rightarrow> bool"
  is_capture :: "board \<Rightarrow> move \<Rightarrow> bool"
  gives_check :: "board \<Rightarrow> move \<Rightarrow> bool"
  is_pinned :: "board \<Rightarrow> color \<Rightarrow> square \<Rightarrow> bool"
  analyse_multipv :: "board \<Rightarrow> info list option"
  analyse_single :: "board \<Rightarrow> py_error + info"
  lower :: "string \<Rightarrow> string"

text \<open>
  \<open>analyse_multipv L b\<close> is \<^verbatim>\<open>engine.analyse(board, limit, multipv=2)\<close>, \<open>None\<close> when the
  call raises (the source catches that and goes on with \<^verbatim>\<open>analysis = None\<close>);
  \<open>analyse_single L b\<close> is \<^verbatim>\<open>engine.analyse(board, limit)\<close>, whose exception is not caught.
  The engine answers as a function of the position. \<open>push L b mv\<close> is the board after
  \<^verbatim>\<open>board.push(move)\<close>; \<^verbatim>\<open>board.pop()\<close> gives back the board before the push.
\<close>

definition piece_at :: "board \<Rightarrow> square \<Rightarrow> piece option" where
  "piece_at b sq = piece_on b sq"

definition remove_piece_at :: "board \<Rightarrow> square \<Rightarrow> board" where
  "remove_piece_at b sq = b\<lparr>piece_on := (piece_on b)(sq := None)\<rparr>"

definition set_piece_at :: "board \<Rightarrow> square \<Rightarrow> piece \<Rightarrow> board" where
  "set_piece_at b sq p = b\<lparr>piece_on := (piece_on b)(sq := Some p)\<rparr>"

definition SQUARES :: "square list" where
  "SQUARES = [0..<64]"

text \<open>\<^verbatim>\<open>board.pieces(piece_type, color)\<close>: the squares holding such a piece, ascending.\<close>

definition pieces :: "board \<Rightarrow> piece_type \<Rightarrow> color \<Rightarrow> square list" where
  "pieces b pt c = filter (\<lambda>sq. piece_on b sq = Some (Piece pt c)) SQUARES"

text \<open>\<^verbatim>\<open>len(board.piece_map())\<close>: the number of occupied squares.\<close>

definition piece_count :: "board \<Rightarrow> nat" where
  "piece_count b = length (filter (\<lambda>sq. piece_on b sq \<noteq> None) SQUARES)"

text \<open>\<^verbatim>\<open>board.king(color)\<close>: the square of that side's king, the highest one if there are
  several, \<open>None\<close> if there is none.\<close>

definition king :: "board \<Rightarrow> color \<Rightarrow> square option" where
  "king b c = find (\<lambda>sq. piece_on b sq = Some (Piece KING c)) (rev SQUARES)"

text \<open>\<^verbatim>\<open>board.is_attacked_by(color, square)\<close>: that side has an attacker of the square.\<close>

definition is_attacked_by :: "lib \<Rightarrow> board \<Rightarrow> color \<Rightarrow> square \<Rightarrow> bool" where
  "is_attacked_by L b c sq = (attackers L b c sq \<noteq> [])"

text \<open>The king of side \<open>c\<close> stands on a square the other side attacks.\<close>

definition king_in_check :: "lib \<Rightarrow> board \<Rightarrow> color \<Rightarrow> bool" where
  "king_in_check L b c =
     (case king b c of None \<Rightarrow> False | Some k \<Rightarrow> is_attacked_by L b (\<not> c) k)"

text \<open>\<^verbatim>\<open>board.is_check()\<close>: the side to move is in check. It takes no colour.\<close>

definition is_check :: "lib \<Rightarrow> board \<Rightarrow> bool" where
  "is_check L b = king_in_check L b (turn b)"

section \<open>Constants of \<^verbatim>\<open>matches.py\<close>\<close>

definition CPL_BLUNDER :: int where "CPL_BLUNDER = 300"
definition CPL_MISTAKE :: int where "CPL_MISTAKE = 100"
definition CPL_INACCURACY :: int where "CPL_INACCURACY = 50"

definition TACTIC_DIFFERENCE_THRESHOLD :: int where
  "TACTIC_DIFFERENCE_THRESHOLD = 150"

fun PIECE_VALUES :: "piece_type \<Rightarrow> int" where
  "PIECE_VALUES PAWN = 1"
| "PIECE_VALUES KNIGHT = 3"
| "PIECE_VALUES BISHOP = 3"
| "PIECE_VALUES ROOK = 5"
| "PIECE_VALUES QUEEN = 9"
| "PIECE_VALUES KING = 100"

fun PIECE_NAMES_upper :: "piece_type \<Rightarrow> string" where
  "PIECE_NAMES_upper PAWN = ''PAWN''"
| "PIECE_NAMES_upper KNIGHT = ''KNIGHT''"
| "PIECE_NAMES_upper BISHOP = ''BISHOP''"
| "PIECE_NAMES_upper ROOK = ''ROOK''"
| "PIECE_NAMES_upper QUEEN = ''QUEEN''"
| "PIECE_NAMES_upper KING = ''KING''"

definition COLOR_NAMES :: "color \<Rightarrow> string" where
  "COLOR_NAMES c = (if c then ''white'' else ''black'')"

section \<open>Analysis helper functions\<close>

definition get_mistake_type :: "int \<Rightarrow> string" where
  "get_mistake_type cpl =
     (if cpl \<ge> CPL_BLUNDER then ''Blunder''
      else if cpl \<ge> CPL_MISTAKE then ''Mistake''
      else if cpl \<ge> CPL_INACCURACY then ''Inaccuracy''
      else ''Good'')"

text \<open>The loop of \<^verbatim>\<open>is_move_a_hang\<close> over the attackers' squares, from the start value 100.\<close>

fun lowest_attacker_value :: "board \<Rightarrow> int \<Rightarrow> square list \<Rightarrow> int" where
  "lowest_attacker_value b lowest [] = lowest"
| "lowest_attacker_value b lowest (attacker_square # rest) =
     (case piece_at b attacker_square of
        None \<Rightarrow> lowest_attacker_value b lowest rest
      | Some attacker_piece \<Rightarrow>
          lowest_attacker_value b (min lowest (PIECE_VALUES (piece_type attacker_piece))) rest)"

definition is_move_a_hang :: "lib \<Rightarrow> board \<Rightarrow> move \<Rightarrow> bool" where
  "is_move_a_hang L b mv =
     (case piece_at b (from_square mv) of
        None \<Rightarrow> False
      | Some moved_piece \<Rightarrow>
          (let moved_piece_value = PIECE_VALUES (piece_type moved_piece);
               user_color = turn b;
               opponent_color = (\<not> user_color);
               opponent_attackers = attackers L b opponent_color (to_square mv)
           in if opponent_attackers = [] then False
              else (let our_defenders = attackers L b user_color (to_square mv)
                    in if our_defenders = [] then True
                       else (let lowest = lowest_attacker_value b 100 opponent_attackers
                             in if moved_piece_value > lowest then True else False))))"

definition get_mistake_category :: "lib \<Rightarrow> board \<Rightarrow> move \<Rightarrow> info list \<Rightarrow> string" where
  "get_mistake_category L b mv analysis =
     (if length analysis > 1
         \<and> score (analysis ! 0) - score (analysis ! 1) > TACTIC_DIFFERENCE_THRESHOLD
      then ''Missed_Tactic''
      else if is_move_a_hang L b mv then ''Hanging_Piece''
      else ''Positional_Error'')"

definition get_game_phase :: "board \<Rightarrow> string" where
  "get_game_phase b =
     (let n = piece_count b
      in if fullmove_number b < 12 \<and> n > 28 then ''Opening''
         else if n < 14 then ''Endgame''
         else ''Middlegame'')"

text \<open>
  The material of one side: the sum over the piece types other than the king of the number
  of such pieces times their value. The source compares the difference of two such
  integers with \<open>1.5\<close> and \<open>-1.5\<close>; the model compares twice the difference with
  \<open>3\<close> and \<open>-3\<close>.
\<close>

definition material_score :: "board \<Rightarrow> color \<Rightarrow> int" where
  "material_score b c =
     sum_list (map (\<lambda>pt. int (length (pieces b pt c)) * PIECE_VALUES pt)
                   [PAWN, KNIGHT, BISHOP, ROOK, QUEEN])"

definition get_material_balance :: "board \<Rightarrow> color \<Rightarrow> string" where
  "get_material_balance b user_color =
     (let diff = material_score b user_color - material_score b (\<not> user_color)
      in if 2 * diff > 3 then ''Winning''
         else if 2 * diff < - 3 then ''Losing''
         else ''Equal'')"

text \<open>The loop of \<^verbatim>\<open>get_king_safety\<close>: how many of the squares are attacked by \<open>c\<close>.\<close>

fun count_attacked :: "lib \<Rightarrow> board \<Rightarrow> color \<Rightarrow> square list \<Rightarrow> nat" where
  "count_attacked L b c [] = 0"
| "count_attacked L b c (sq # rest) =
     (if is_attacked_by L b c sq then 1 + count_attacked L b c rest
      else count_attacked L b c rest)"

definition get_king_safety :: "lib \<Rightarrow> board \<Rightarrow> color \<Rightarrow> string" where
  "get_king_safety L b c =
     (if is_check L b then ''In_Check''
      else (case king b c of
              None \<Rightarrow> ''Safe''
            | Some king_square \<Rightarrow>
                (let nearby_squares = attacks L b king_square;
                     n = count_attacked L b (\<not> c) nearby_squares
                 in if n > 3 then ''Exposed'' else ''Safe'')))"

definition get_board_complexity :: "board \<Rightarrow> string" where
  "get_board_complexity b =
     (let n = piece_count b
      in if n > 26 then ''High'' else if n < 10 then ''Low'' else ''Medium'')"

definition G1 :: square where "G1 = 6"
definition C1 :: square where "C1 = 2"
definition G8 :: square where "G8 = 62"
definition C8 :: square where "C8 = 58"

definition get_castling_status :: "lib \<Rightarrow> board \<Rightarrow> color \<Rightarrow> string" where
  "get_castling_status L b c =
     (let king_square = king b c;
          castled_squares = (if c = WHITE then [Some G1, Some C1] else [Some G8, Some C8])
      in if king_square \<in> set castled_squares \<and> \<not> has_castling_rights L b c
         then ''Has_Castled''
         else if has_castling_rights L b c then ''Can_Castle''
         else ''Cannot_Castle'')"

definition get_move_type :: "lib \<Rightarrow> board \<Rightarrow> move \<Rightarrow> string" where
  "get_move_type L b mv =
     (if is_capture L b mv then ''Capture''
      else if gives_check L b mv then ''Check''
      else ''Quiet'')"

text \<open>The loop of \<^verbatim>\<open>is_piece_defending\<close>, left at the first attacked square.\<close>

fun defended_any :: "lib \<Rightarrow> board \<Rightarrow> color \<Rightarrow> square list \<Rightarrow> bool" where
  "defended_any L b c [] = False"
| "defended_any L b c (sq # rest) =
     (if is_attacked_by L b (\<not> c) sq then True else defended_any L b c rest)"

text \<open>
  \<^verbatim>\<open>is_piece_defending\<close> changes the board it is given, so the model returns the board as
  the call leaves it beside the answer.
\<close>

definition is_piece_defending :: "lib \<Rightarrow> board \<Rightarrow> square \<Rightarrow> color \<Rightarrow> bool \<times> board" where
  "is_piece_defending L b sq c =
     (case piece_at b sq of
        None \<Rightarrow> (False, b)
      | Some p \<Rightarrow>
          (let b1 = remove_piece_at b sq;
               answer = defended_any L b1 c (pieces b1 (piece_type p) c);
               b2 = set_piece_at b1 sq p
           in (answer, b2)))"

section \<open>The full analysis of a game\<close>

text \<open>
  The dictionary \<^verbatim>\<open>mistake_data\<close>. \<open>prior_fen\<close> holds the position itself where the source
  holds its FEN string, and the two moves stand for their UCI strings.
\<close>

record mistake_data =
  move_number :: nat
  player_color :: string
  prior_fen :: board
  move_made :: move
  best_move :: move
  cpl :: int
  mistake_type :: string
  mistake_category :: string
  game_phase :: string
  material_balance :: string
  board_complexity :: string
  king_self_safety :: string
  king_opponent_status :: string
  castling_status_self :: string
  piece_moved :: string
  move_type :: string
  piece_was_attacked :: bool
  piece_was_defended :: bool
  piece_was_defending :: bool
  piece_was_pinned :: bool

text \<open>
  The loop over the analysis lines that looks for the move played: the score of the first
  line whose variation is present, not empty and starts with that move.
\<close>

fun find_user_move_score :: "move \<Rightarrow> info list \<Rightarrow> int option" where
  "find_user_move_score mv [] = None"
| "find_user_move_score mv (move_info # rest) =
     (case pv move_info of
        None \<Rightarrow> find_user_move_score mv rest
      | Some [] \<Rightarrow> find_user_move_score mv rest
      | Some (m0 # _) \<Rightarrow>
          if m0 = mv then Some (score move_info) else find_user_move_score mv rest)"

text \<open>
  The score of the move played. When no line starts with it the move is pushed, the
  resulting position is analysed with one variation, and the move is popped; both branches
  of the source negate the score.
\<close>

definition user_move_score :: "lib \<Rightarrow> board \<Rightarrow> move \<Rightarrow> info list \<Rightarrow> py_error + int" where
  "user_move_score L b mv analysis =
     (case find_user_move_score mv analysis of
        Some s \<Rightarrow> Inr s
      | None \<Rightarrow>
          (case analyse_single L (push L b mv) of
             Inl e \<Rightarrow> Inl e
           | Inr user_analysis \<Rightarrow>
               Inr (if score_is_mate user_analysis then - score user_analysis
                    else score user_analysis * (- 1))))"

definition build_mistake ::
  "lib \<Rightarrow> color \<Rightarrow> board \<Rightarrow> move \<Rightarrow> info list \<Rightarrow> move \<Rightarrow> int \<Rightarrow> string
     \<Rightarrow> mistake_data \<times> board" where
  "build_mistake L user_color b mv analysis best_mv c mt =
     (let moved_piece = piece_at b (from_square mv);
          (defending, b') = is_piece_defending L b (from_square mv) user_color
      in (\<lparr> move_number = fullmove_number b,
            player_color = COLOR_NAMES user_color,
            prior_fen = b,
            move_made = mv,
            best_move = best_mv,
            cpl = c,
            mistake_type = mt,
            mistake_category = get_mistake_category L b mv analysis,
            game_phase = get_game_phase b,
            material_balance = get_material_balance b user_color,
            board_complexity = get_board_complexity b,
            king_self_safety = get_king_safety L b user_color,
            king_opponent_status = get_king_safety L b (\<not> user_color),
            castling_status_self = get_castling_status L b user_color,
            piece_moved = (case moved_piece of None \<Rightarrow> ''UNKNOWN''
                           | Some p \<Rightarrow> PIECE_NAMES_upper (piece_type p)),
            move_type = get_move_type L b mv,
            piece_was_attacked = is_attacked_by L b (\<not> user_color) (from_square mv),
            piece_was_defended = is_attacked_by L b user_color (from_square mv),
            piece_was_defending = defending,
            piece_was_pinned = is_pinned L b' user_color (from_square mv) \<rparr>, b'))"

text \<open>
  One ply of the user: the record appended to the list, if any, and the board as the
  analysis leaves it (before the move is pushed). \<open>Inl\<close> is an exception that leaves
  \<^verbatim>\<open>analyze_game_fully\<close>.
\<close>

definition analyze_ply ::
  "lib \<Rightarrow> color \<Rightarrow> board \<Rightarrow> move \<Rightarrow> py_error + (mistake_data option \<times> board)" where
  "analyze_ply L user_color b mv =
     (case analyse_multipv L b of
        None \<Rightarrow> Inr (None, b)
      | Some [] \<Rightarrow> Inr (None, b)
      | Some (best_move_info # others) \<Rightarrow>
          (case pv best_move_info of
             None \<Rightarrow> Inr (None, b)
           | Some [] \<Rightarrow> Inr (None, b)
           | Some (best_mv # _) \<Rightarrow>
               (let analysis = best_move_info # others;
                    best_score = score best_move_info
                in case user_move_score L b mv analysis of
                     Inl e \<Rightarrow> Inl e
                   | Inr ums \<Rightarrow>
                       (let c = max 0 (best_score - ums);
                            mt = get_mistake_type c
                        in if mt \<noteq> ''Good''
                           then (case build_mistake L user_color b mv analysis best_mv c mt of
                                   (m, b') \<Rightarrow> Inr (Some m, b'))
                           else Inr (None, b)))))"

text \<open>The loop over the moves of the game, with the list of mistakes found so far.\<close>

fun analyze_moves ::
  "lib \<Rightarrow> color \<Rightarrow> board \<Rightarrow> move list \<Rightarrow> mistake_data list \<Rightarrow> py_error + mistake_data list" where
  "analyze_moves L user_color b [] mistakes_list = Inr mistakes_list"
| "analyze_moves L user_color b (mv # rest) mistakes_list =
     (if turn b = user_color
      then (if is_game_over L b
            then analyze_moves L user_color (push L b mv) rest mistakes_list
            else (case analyze_ply L user_color b mv of
                    Inl e \<Rightarrow> Inl e
                  | Inr (None, b') \<Rightarrow>
                      analyze_moves L user_color (push L b' mv) rest mistakes_list
                  | Inr (Some m, b') \<Rightarrow>
                      analyze_moves L user_color (push L b' mv) rest (mistakes_list @ [m])))
      else analyze_moves L user_color (push L b mv) rest mistakes_list)"

record game =
  header_White :: string
  header_Black :: string
  start_board :: board
  mainline_moves :: "move list"

definition analyze_game_fully :: "lib \<Rightarrow> game \<Rightarrow> string \<Rightarrow> py_error + mistake_data list" where
  "analyze_game_fully L g username =
     (if lower L (header_White g) = lower L username
      then analyze_moves L WHITE (start_board g) (mainline_moves g) []
      else if lower L (header_Black g) = lower L username
      then analyze_moves L BLACK (start_board g) (mainline_moves g) []
      else Inr [])"

section \<open>A concrete instance of the library, for worked positions\<close>

text \<open>
  The attack geometry of chess on the squares \<open>0..63\<close> (a1 is 0, h1 is 7, a8 is 56), used
  to give the interface \<open>lib\<close> a concrete value at the worked positions below. The
  theorems about the extractor are stated for every \<open>lib\<close> and do not depend on it.
\<close>

definition square_file :: "square \<Rightarrow> int" where
  "square_file sq = int (sq mod 8)"

definition square_rank :: "square \<Rightarrow> int" where
  "square_rank sq = int (sq div 8)"

definition between :: "square \<Rightarrow> square \<Rightarrow> square list" where
  "between a b =
     (let df = square_file b - square_file a; dr = square_rank b - square_rank a
      in if df = 0 \<or> dr = 0 \<or> \<bar>df\<bar> = \<bar>dr\<bar>
         then map (\<lambda>k. nat (int a + int k * (sgn df + 8 * sgn dr)))
                  [1..<nat (max \<bar>df\<bar> \<bar>dr\<bar>)]
         else [])"

definition piece_attacks :: "board \<Rightarrow> square \<Rightarrow> piece \<Rightarrow> square \<Rightarrow> bool" where
  "piece_attacks b s p t =
     (let df = square_file t - square_file s; dr = square_rank t - square_rank s;
          clear = list_all (\<lambda>x. piece_on b x = None) (between s t)
      in case piece_type p of
           PAWN \<Rightarrow> \<bar>df\<bar> = 1 \<and> dr = (if color p then 1 else - 1)
         | KNIGHT \<Rightarrow> (\<bar>df\<bar> = 1 \<and> \<bar>dr\<bar> = 2) \<or> (\<bar>df\<bar> = 2 \<and> \<bar>dr\<bar> = 1)
         | KING \<Rightarrow> max \<bar>df\<bar> \<bar>dr\<bar> = 1
         | ROOK \<Rightarrow> s \<noteq> t \<and> (df = 0 \<or> dr = 0) \<and> clear
         | BISHOP \<Rightarrow> s \<noteq> t \<and> \<bar>df\<bar> = \<bar>dr\<bar> \<and> clear
         | QUEEN \<Rightarrow> s \<noteq> t \<and> (df = 0 \<or> dr = 0 \<or> \<bar>df\<bar> = \<bar>dr\<bar>) \<and> clear)"

definition chess_attackers :: "board \<Rightarrow> color \<Rightarrow> square \<Rightarrow> square list" where
  "chess_attackers b c t =
     filter (\<lambda>s. case piece_on b s of
                    None \<Rightarrow> False
                  | Some p \<Rightarrow> color p = c \<and> piece_attacks b s p t) SQUARES"

definition chess_attacks :: "board \<Rightarrow> square \<Rightarrow> square list" where
  "chess_attacks b s =
     (case piece_on b s of None \<Rightarrow> [] | Some p \<Rightarrow> filter (piece_attacks b s p) SQUARES)"

text \<open>A move without capture rules beyond replacing what stands on the target square.\<close>

definition plain_push :: "board \<Rightarrow> move \<Rightarrow> board" where
  "plain_push b mv =
     \<lparr> piece_on = (piece_on b)(from_square mv := None, to_square mv := piece_on b (from_square mv)),
       turn = (\<not> turn b),
       fullmove_number = (if turn b then fullmove_number b else fullmove_number b + 1) \<rparr>"

text \<open>
  The library over the geometry above, with an engine that answers \<open>multi\<close> to the
  two-variation request and \<open>single\<close> to the one-variation request. The remaining queries
  are given the answers they have at the worked positions: nobody may castle, no piece is
  pinned, the move gives no check and the game is not over.
\<close>

definition example_lib :: "info list option \<Rightarrow> py_error + info \<Rightarrow> lib" where
  "example_lib multi single =
     \<lparr> attackers = chess_attackers,
       attacks = chess_attacks,
       push = plain_push,
       is_game_over = (\<lambda>b. False),
       has_castling_rights = (\<lambda>b c. False),
       is_capture = (\<lambda>b mv. piece_on b (to_square mv) \<noteq> None),
       gives_check = (\<lambda>b mv. False),
       is_pinned = (\<lambda>b c sq. False),
       analyse_multipv = (\<lambda>b. multi),
       analyse_single = (\<lambda>b. single),
       lower = (\<lambda>s. s) \<rparr>"

text \<open>
  Position A, White to move at move 30: White Ke1, Qd1; Black Ke8, pawn c6. White plays
  Qd1-d5, where the pawn on c6 attacks the queen.
\<close>

definition board_A :: board where
  "board_A =
     \<lparr> piece_on = map_of [(4, Piece KING True), (3, Piece QUEEN True),
                          (60, Piece KING False), (42, Piece PAWN False)],
       turn = True,
       fullmove_number = 30 \<rparr>"

definition move_Qd5 :: move where
  "move_Qd5 = \<lparr> from_square = 3, to_square = 35, promotion = None \<rparr>"

definition move_Ke2 :: move where
  "move_Ke2 = \<lparr> from_square = 4, to_square = 12, promotion = None \<rparr>"

definition move_Kf1 :: move where
  "move_Kf1 = \<lparr> from_square = 4, to_square = 5, promotion = None \<rparr>"

text \<open>The engine prefers Ke2 (+50) to Kf1 (+20) and sees Black at +850 after Qd5.\<close>

definition analysis_A :: "info list" where
  "analysis_A =
     [\<lparr> pv = Some [move_Ke2], score_is_mate = False, score = 50 \<rparr>,
      \<lparr> pv = Some [move_Kf1], score_is_mate = False, score = 20 \<rparr>]"

definition lib_A :: lib where
  "lib_A = example_lib (Some analysis_A)
             (Inr \<lparr> pv = None, score_is_mate = False, score = 850 \<rparr>)"

definition game_A :: game where
  "game_A = \<lparr> header_White = ''simothy'', header_Black = ''rival'',
              start_board = board_A, mainline_moves = [move_Qd5] \<rparr>"

text \<open>
  Position B, White to move at move 40: White Ke1; Black Re8, Kh8. The rook on e8 gives
  check along the open e-file and no white piece attacks the black king. White plays
  Ke1-d1.
\<close>

definition board_B :: board where
  "board_B =
     \<lparr> piece_on = map_of [(4, Piece KING True), (60, Piece ROOK False),
                          (63, Piece KING False)],
       turn = True,
       fullmove_number = 40 \<rparr>"

definition move_Kd1 :: move where
  "move_Kd1 = \<lparr> from_square = 4, to_square = 3, promotion = None \<rparr>"

definition move_Kd2 :: move where
  "move_Kd2 = \<lparr> from_square = 4, to_square = 11, promotion = None \<rparr>"

definition move_Kf2 :: move where
  "move_Kf2 = \<lparr> from_square = 4, to_square = 13, promotion = None \<rparr>"

text \<open>The engine prefers Kd2 (-500) to Kf2 (-510) and sees Black at +900 after Kd1.\<close>

definition analysis_B :: "info list" where
  "analysis_B =
     [\<lparr> pv = Some [move_Kd2], score_is_mate = False, score = - 500 \<rparr>,
      \<lparr> pv = Some [move_Kf2], score_is_mate = False, score = - 510 \<rparr>]"

definition lib_B :: lib where
  "lib_B = example_lib (Some analysis_B)
             (Inr \<lparr> pv = None, score_is_mate = False, score = 900 \<rparr>)"

definition game_B :: game where
  "game_B = \<lparr> header_White = ''simothy'', header_Black = ''rival'',
              start_board = board_B, mainline_moves = [move_Kd1] \<rparr>"

text \<open>
  Position C, White to move at move 35: White Ke1, Ra1; Black Kh8, Rh7. White plays
  Ra1-a7. The black rook attacks a7 along the seventh rank, and once the white rook
  stands on a7 no white piece defends it.
\<close>

definition board_C :: board where
  "board_C =
     \<lparr> piece_on = map_of [(4, Piece KING True), (0, Piece ROOK True),
                          (63, Piece KING False), (55, Piece ROOK False)],
       turn = True,
       fullmove_number = 35 \<rparr>"

definition move_Ra7 :: move where
  "move_Ra7 = \<lparr> from_square = 0, to_square = 48, promotion = None \<rparr>"

text \<open>The engine prefers Ke2 (0) to Kf1 (-20) and sees Black at +500 after Ra7.\<close>

definition analysis_C :: "info list" where
  "analysis_C =
     [\<lparr> pv = Some [move_Ke2], score_is_mate = False, score = 0 \<rparr>,
      \<lparr> pv = Some [move_Kf1], score_is_mate = False, score = - 20 \<rparr>]"

definition lib_C :: lib where
  "lib_C = example_lib (Some analysis_C)
             (Inr \<lparr> pv = None, score_is_mate = False, score = 500 \<rparr>)"

definition game_C :: game where
  "game_C = \<lparr> header_White = ''simothy'', header_Black = ''rival'',
              start_board = board_C, mainline_moves = [move_Ra7] \<rparr>"

section \<open>The habit analysis pipeline of \<^verbatim>\<open>analysis.py\<close>\<close>

text \<open>
  The pipeline talks to a database, to the clustering and regression libraries and to a
  text-generation service. Their answers are the fields of the record \<open>env\<close>, and every
  call with an effect outside the process is written to a trace of events, in the order
  of the calls.

  The functions of \<^verbatim>\<open>analysis.py\<close> whose names start with an underscore are written
  without it. Three helpers that \<^verbatim>\<open>analysis.py\<close> calls in \<^verbatim>\<open>db_helpers\<close> are not defined in
  \<^verbatim>\<open>db_helpers.py\<close>: \<^verbatim>\<open>clear_old_habits_and_feedback\<close>, \<^verbatim>\<open>get_all_mistakes_for_user_v6\<close> and
  \<^verbatim>\<open>save_habit_analysis\<close>. They are taken as given: the first as an event, the other two
  as fields of \<open>env\<close>.
\<close>

record mistake_row =
  row_id :: int
  row_cpl :: int
  row_move_number :: int
  row_categorical :: "string list"

record clustered_row = mistake_row +
  habit_id :: int
  habit_confidence :: real

record habit_args =
  arg_user_id :: nat
  arg_hdbscan_label :: int
  arg_habit_name :: string
  arg_triggers :: "(string \<times> real) list"
  arg_habit_confidence :: real
  arg_prime_example_id :: int
  arg_coaching_feedback :: string
  arg_improvement_tip :: string

datatype event =
    Clear_old nat
  | Fetch_all nat
  | Run_hdbscan
  | Train_model int
  | Llm_call nat
  | Sleep nat
  | Save_habit habit_args "int option"
  | Link_mistakes int "int list"

datatype run_error = ValueError | AttributeError

record env =
  get_all_mistakes_for_user_v6 :: "nat \<Rightarrow> mistake_row list"
  hdbscan_fit :: "mistake_row list \<Rightarrow> nat \<Rightarrow> int \<times> real"
  preprocessor_fit :: "mistake_row list \<Rightarrow> bool"
  preprocessor_transform :: "clustered_row list \<Rightarrow> bool"
  get_feature_names_out :: "mistake_row list \<Rightarrow> string list"
  logistic_fit :: "clustered_row list \<Rightarrow> clustered_row list \<Rightarrow> real list"
  llm_reply :: "int \<Rightarrow> nat \<Rightarrow> (string \<Rightarrow> string option) option"
  save_habit_analysis :: "habit_args \<Rightarrow> int option"

text \<open>
  \<open>hdbscan_fit E rows i\<close> is the label and the membership probability the clusterer gives
  the \<open>i\<close>-th row; \<open>preprocessor_fit\<close> and \<open>preprocessor_transform\<close> say whether the encoder
  could be fitted and applied (the source catches their exceptions); \<open>logistic_fit\<close> is
  \<^verbatim>\<open>model.coef_[0]\<close> after the fit on the cluster and its control set; \<open>llm_reply E l n\<close> is the
  parsed reply to attempt \<open>n\<close> for cluster \<open>l\<close>, \<open>None\<close> when anything inside the
  \<^verbatim>\<open>try\<close> block raises; \<open>save_habit_analysis\<close> returns the new habit id, if any.
\<close>

record pipeline_result =
  new_habits_found :: nat
  total_mistakes :: nat

subsection \<open>Small pieces of Python\<close>

definition digit_char :: "nat \<Rightarrow> char" where
  "digit_char n = ''0123456789'' ! n"

fun str_nat :: "nat \<Rightarrow> string" where
  "str_nat n = (if n < 10 then [digit_char n] else str_nat (n div 10) @ [digit_char (n mod 10)])"

declare str_nat.simps [simp del]

text \<open>\<^verbatim>\<open>str\<close> of an integer, as the f-string of the habit name formats the label.\<close>

definition str_int :: "int \<Rightarrow> string" where
  "str_int i = (if i < 0 then CHR ''-'' # str_nat (nat (- i)) else str_nat (nat i))"

text \<open>A dictionary as the list of its items in insertion order; storing under a key that
  is present replaces the value in place.\<close>

fun dict_set :: "('k \<times> 'v) list \<Rightarrow> 'k \<Rightarrow> 'v \<Rightarrow> ('k \<times> 'v) list" where
  "dict_set [] k v = [(k, v)]"
| "dict_set ((k', v') # d) k v =
     (if k' = k then (k, v) # d else (k', v') # dict_set d k v)"

definition dict_of_items :: "('k \<times> 'v) list \<Rightarrow> ('k \<times> 'v) list" where
  "dict_of_items items = foldl (\<lambda>d (k, v). dict_set d k v) [] items"

text \<open>\<^verbatim>\<open>d.get(key, default)\<close>.\<close>

definition dict_get :: "('k \<Rightarrow> 'v option) \<Rightarrow> 'k \<Rightarrow> 'v \<Rightarrow> 'v" where
  "dict_get d k dflt = (case d k of None \<Rightarrow> dflt | Some v \<Rightarrow> v)"

text \<open>\<^verbatim>\<open>Series.unique()\<close>: the distinct values in order of first appearance.\<close>

definition unique :: "'a list \<Rightarrow> 'a list" where
  "unique xs = rev (remdups (rev xs))"

text \<open>A truthy \<^verbatim>\<open>new_serial_id\<close>: not \<^verbatim>\<open>None\<close> and not zero.\<close>

definition truthy :: "int option \<Rightarrow> bool" where
  "truthy r = (case r of None \<Rightarrow> False | Some i \<Rightarrow> i \<noteq> 0)"

subsection \<open>Clustering and trigger model\<close>

definition run_hdbscan_clustering :: "env \<Rightarrow> mistake_row list \<Rightarrow> clustered_row list" where
  "run_hdbscan_clustering E df =
     map (\<lambda>(i, r). \<lparr> row_id = row_id r, row_cpl = row_cpl r,
                      row_move_number = row_move_number r,
                      row_categorical = row_categorical r,
                      habit_id = fst (hdbscan_fit E df i),
                      habit_confidence = snd (hdbscan_fit E df i) \<rparr>)
         (enumerate 0 df)"

text \<open>\<^verbatim>\<open>_find_triggers_for_cluster\<close>: the coefficients and the feature names, or nothing.\<close>

definition find_triggers_for_cluster ::
  "env \<Rightarrow> mistake_row list \<Rightarrow> clustered_row list \<Rightarrow> clustered_row list
     \<Rightarrow> (real list \<times> string list) option" where
  "find_triggers_for_cluster E df cluster_df control_df =
     (if control_df = [] then None
      else if \<not> preprocessor_transform E (cluster_df @ control_df) then None
      else Some (logistic_fit E cluster_df control_df, get_feature_names_out E df))"

subsection \<open>Text generation with retries\<close>

definition fallback_feedback :: "string \<Rightarrow> string option" where
  "fallback_feedback =
     map_of [(''habit_name'', ''LLM Error Fallback''),
             (''feedback'', ''The AI coach could not generate personalized feedback. Please check the API status.''),
             (''tip'', ''Review the cluster manually.'')]"

text \<open>
  The loop \<^verbatim>\<open>for attempt in range(3)\<close> of \<^verbatim>\<open>_generate_llm_feedback\<close>. A reply ends it; a
  failure sleeps \<open>2 ^ attempt\<close> seconds and goes on while \<open>attempt < 2\<close>, and returns the
  fallback otherwise. A loop that runs out returns \<^verbatim>\<open>None\<close>, as Python does.
\<close>

fun llm_attempts ::
  "(nat \<Rightarrow> (string \<Rightarrow> string option) option) \<Rightarrow> nat list
     \<Rightarrow> (string \<Rightarrow> string option) option \<times> event list" where
  "llm_attempts reply [] = (None, [])"
| "llm_attempts reply (attempt # rest) =
     (case reply attempt of
        Some out \<Rightarrow> (Some out, [Llm_call attempt])
      | None \<Rightarrow>
          if attempt < 2
          then (case llm_attempts reply rest of
                  (r, ev) \<Rightarrow> (r, Llm_call attempt # Sleep (2 ^ attempt) # ev))
          else (Some fallback_feedback, [Llm_call attempt]))"

definition generate_llm_feedback ::
  "(nat \<Rightarrow> (string \<Rightarrow> string option) option)
     \<Rightarrow> (string \<Rightarrow> string option) option \<times> event list" where
  "generate_llm_feedback reply = llm_attempts reply [0, 1, 2]"

subsection \<open>Extracting triggers, saving and linking\<close>

definition extract_triggers :: "string list \<Rightarrow> real list \<Rightarrow> (string \<times> real) list" where
  "extract_triggers feature_names coefficients =
     dict_of_items (filter (\<lambda>(name, coef). coef > 0.1) (zip feature_names coefficients))"

definition mean_confidence :: "clustered_row list \<Rightarrow> real" where
  "mean_confidence cluster_df =
     sum_list (map habit_confidence cluster_df) / real (length cluster_df)"

text \<open>\<^verbatim>\<open>cluster_df['cpl'].idxmax()\<close>: the id of the first row of largest \<open>cpl\<close>; it raises on
  an empty frame.\<close>

definition idxmax_cpl :: "clustered_row list \<Rightarrow> run_error + int" where
  "idxmax_cpl cluster_df =
     (case cluster_df of
        [] \<Rightarrow> Inl ValueError
      | r # rs \<Rightarrow>
          Inr (row_id (foldl (\<lambda>best x. if row_cpl x > row_cpl best then x else best) r rs)))"

text \<open>\<^verbatim>\<open>_generate_and_save_feedback\<close>: the new habit id, if any, and the events.\<close>

definition generate_and_save_feedback ::
  "env \<Rightarrow> nat \<Rightarrow> int \<Rightarrow> clustered_row list \<Rightarrow> real list \<Rightarrow> string list
     \<Rightarrow> (run_error + int option) \<times> event list" where
  "generate_and_save_feedback E user_id hdbscan_label cluster_df coefficients feature_names =
     (let triggers = extract_triggers feature_names coefficients
      in if triggers = [] then (Inr None, [])
         else (case idxmax_cpl cluster_df of
                 Inl e \<Rightarrow> (Inl e, [])
               | Inr prime_example_id \<Rightarrow>
                   (case generate_llm_feedback (llm_reply E hdbscan_label) of
                      (None, ev) \<Rightarrow> (Inl AttributeError, ev)
                    | (Some llm_output, ev) \<Rightarrow>
                        (let suggested_name = dict_get llm_output ''habit_name'' ''Unnamed Habit'';
                             args = \<lparr> arg_user_id = user_id,
                                      arg_hdbscan_label = hdbscan_label,
                                      arg_habit_name =
                                        suggested_name @ '' (H'' @ str_int hdbscan_label @ '')'',
                                      arg_triggers = triggers,
                                      arg_habit_confidence = mean_confidence cluster_df,
                                      arg_prime_example_id = prime_example_id,
                                      arg_coaching_feedback =
                                        dict_get llm_output ''feedback''
                                          ''No detailed feedback generated.'',
                                      arg_improvement_tip =
                                        dict_get llm_output ''tip'' ''No specific tip provided.'' \<rparr>;
                             new_serial_habit_id = save_habit_analysis E args
                         in (Inr new_serial_habit_id,
                             ev @ [Save_habit args new_serial_habit_id])))))"

text \<open>\<^verbatim>\<open>db_helpers.link_mistakes_to_habit\<close>: one update statement, none for an empty list.\<close>

definition link_mistakes_to_habit :: "int \<Rightarrow> int list \<Rightarrow> event list" where
  "link_mistakes_to_habit habit list_of_mistake_ids =
     (if list_of_mistake_ids = [] then [] else [Link_mistakes habit list_of_mistake_ids])"

text \<open>One round of the loop over the cluster labels: whether a habit was counted.\<close>

definition cluster_step ::
  "env \<Rightarrow> nat \<Rightarrow> mistake_row list \<Rightarrow> clustered_row list \<Rightarrow> clustered_row list \<Rightarrow> int
     \<Rightarrow> (run_error + bool) \<times> event list" where
  "cluster_step E user_id df df_clustered habits_df hdbscan_label =
     (let cluster_df = filter (\<lambda>r. habit_id r = hdbscan_label) habits_df;
          control_df = filter (\<lambda>r. habit_id r \<noteq> hdbscan_label) df_clustered
      in case find_triggers_for_cluster E df cluster_df control_df of
           None \<Rightarrow> (Inr False, [])
         | Some (coefficients, feature_names) \<Rightarrow>
             (case generate_and_save_feedback E user_id hdbscan_label cluster_df
                     coefficients feature_names of
                (Inl e, ev) \<Rightarrow> (Inl e, Train_model hdbscan_label # ev)
              | (Inr new_serial_id, ev) \<Rightarrow>
                  if truthy new_serial_id
                  then (Inr True,
                        Train_model hdbscan_label # ev
                          @ link_mistakes_to_habit (case new_serial_id of Some i \<Rightarrow> i | None \<Rightarrow> 0)
                              (map row_id cluster_df))
                  else (Inr False, Train_model hdbscan_label # ev)))"

fun cluster_loop ::
  "env \<Rightarrow> nat \<Rightarrow> mistake_row list \<Rightarrow> clustered_row list \<Rightarrow> clustered_row list \<Rightarrow> int list
     \<Rightarrow> nat \<Rightarrow> (run_error + nat) \<times> event list" where
  "cluster_loop E user_id df df_clustered habits_df [] new_habit_count =
     (Inr new_habit_count, [])"
| "cluster_loop E user_id df df_clustered habits_df (hdbscan_label # rest) new_habit_count =
     (case cluster_step E user_id df df_clustered habits_df hdbscan_label of
        (Inl e, ev) \<Rightarrow> (Inl e, ev)
      | (Inr counted, ev) \<Rightarrow>
          (case cluster_loop E user_id df df_clustered habits_df rest
                  (if counted then new_habit_count + 1 else new_habit_count) of
             (r, ev') \<Rightarrow> (r, ev @ ev')))"

definition main_analysis_pipeline ::
  "env \<Rightarrow> nat \<Rightarrow> (run_error + pipeline_result) \<times> event list" where
  "main_analysis_pipeline E user_id =
     (let all_mistakes = get_all_mistakes_for_user_v6 E user_id;
          start = [Clear_old user_id, Fetch_all user_id];
          nothing = \<lparr> new_habits_found = 0, total_mistakes = length all_mistakes \<rparr>
      in if length all_mistakes < 20 then (Inr nothing, start)
         else (let df_clustered = run_hdbscan_clustering E all_mistakes;
                   habits_df = filter (\<lambda>r. habit_id r \<noteq> - 1) df_clustered
               in if habits_df = [] then (Inr nothing, start @ [Run_hdbscan])
                  else if \<not> preprocessor_fit E all_mistakes
                  then (Inr nothing, start @ [Run_hdbscan])
                  else (case cluster_loop E user_id all_mistakes df_clustered habits_df
                               (unique (map habit_id habits_df)) 0 of
                          (Inl e, ev) \<Rightarrow> (Inl e, start @ [Run_hdbscan] @ ev)
                        | (Inr new_habit_count, ev) \<Rightarrow>
                            (Inr \<lparr> new_habits_found = new_habit_count,
                                   total_mistakes = length all_mistakes \<rparr>,
                             start @ [Run_hdbscan] @ ev))))"

section \<open>The claims in the words of the specification\<close>

text \<open>A line of the analysis starts with the move played.\<close>

definition starts_with :: "move \<Rightarrow> info \<Rightarrow> bool" where
  "starts_with mv line = (case pv line of Some (m0 # _) \<Rightarrow> m0 = mv | _ \<Rightarrow> False)"

text \<open>
  The player's score as the specification words it: read from the first of the top lines
  that starts with the move played, and otherwise the negated score of a single-variation
  analysis of the position after the move.
\<close>

definition spec_player_score :: "lib \<Rightarrow> board \<Rightarrow> move \<Rightarrow> info list \<Rightarrow> int option" where
  "spec_player_score L b mv top_lines =
     (case find (starts_with mv) top_lines of
        Some line \<Rightarrow> Some (score line)
      | None \<Rightarrow>
          (case analyse_single L (push L b mv) of
             Inl e \<Rightarrow> None
           | Inr reevaluation \<Rightarrow> Some (- score reevaluation)))"

text \<open>The best line beats the second-best line by more than 150 centipawns.\<close>

definition best_gap_exceeds :: "info list \<Rightarrow> bool" where
  "best_gap_exceeds top_lines =
     (case top_lines of
        best # second # _ \<Rightarrow> score best - score second > 150
      | _ \<Rightarrow> False)"

text \<open>The values of the pieces of side \<open>c\<close> that attack a square, and the cheapest one.\<close>

definition values_on :: "board \<Rightarrow> square list \<Rightarrow> int list" where
  "values_on b sqs =
     List.map_filter (\<lambda>s. map_option (\<lambda>p. PIECE_VALUES (piece_type p)) (piece_at b s)) sqs"

definition attacker_values :: "lib \<Rightarrow> board \<Rightarrow> color \<Rightarrow> square \<Rightarrow> int list" where
  "attacker_values L b c sq = values_on b (attackers L b c sq)"

definition cheapest_attacker_value :: "lib \<Rightarrow> board \<Rightarrow> color \<Rightarrow> square \<Rightarrow> int" where
  "cheapest_attacker_value L b c sq = Min (set (attacker_values L b c sq))"

text \<open>A square is undefended by side \<open>c\<close>: no piece of \<open>c\<close> attacks it.\<close>

definition undefended :: "lib \<Rightarrow> board \<Rightarrow> color \<Rightarrow> square \<Rightarrow> bool" where
  "undefended L b c sq = (attackers L b c sq = [])"

text \<open>
  The category in the order of the specification, for the piece \<open>moved\<close>. The hanging
  test is about the piece where the move has put it: on the board after the move the
  opponent attacks the destination square, and either no piece of the mover defends that
  square or the moved piece is worth more than the cheapest attacker. The moved piece
  stands on the destination then and is not its own defender.
\<close>

definition spec_mistake_category ::
  "lib \<Rightarrow> board \<Rightarrow> move \<Rightarrow> piece \<Rightarrow> info list \<Rightarrow> string" where
  "spec_mistake_category L b mv moved top_lines =
     (let after = push L b mv; mover = turn b; destination = to_square mv
      in if best_gap_exceeds top_lines then ''Missed_Tactic''
         else if is_attacked_by L after (\<not> mover) destination
                 \<and> (undefended L after mover destination
                    \<or> PIECE_VALUES (piece_type moved)
                        > cheapest_attacker_value L after (\<not> mover) destination)
         then ''Hanging_Piece''
         else ''Positional_Error'')"

text \<open>
  A trace links only behind a successful save: an update that links mistakes to a habit
  comes directly after the save that returned this habit's id, and the id is not zero.
\<close>

fun link_guarded :: "event list \<Rightarrow> bool" where
  "link_guarded [] = True"
| "link_guarded (Link_mistakes h ids # es) = False"
| "link_guarded (Save_habit a r # Link_mistakes h ids # es) =
     (r = Some h \<and> h \<noteq> 0 \<and> link_guarded es)"
| "link_guarded (e # es) = link_guarded es"

section \<open>Worked runs of the pipeline\<close>

text \<open>
  Rows \<open>1..n\<close> of one user, a clusterer that puts the first five rows into cluster 0
  with probability 1 and calls the rest noise, an encoder with three feature names, and a
  regression, a text service and a database that answer as the parameters say.
\<close>

definition example_row :: "int \<Rightarrow> mistake_row" where
  "example_row i =
     \<lparr> row_id = i, row_cpl = 100 + i, row_move_number = 20,
       row_categorical =
         [''Mistake'', ''Hanging_Piece'', ''Endgame'', ''Equal'', ''Low'', ''Safe'', ''Safe'',
          ''Cannot_Castle'', ''ROOK'', ''Quiet'', ''True'', ''False'', ''False'', ''False''] \<rparr>"

definition example_rows :: "nat \<Rightarrow> mistake_row list" where
  "example_rows n = map (\<lambda>i. example_row (int i)) [1..<Suc n]"

definition example_feature_names :: "string list" where
  "example_feature_names =
     [''game_phase_Endgame'', ''mistake_category_Hanging_Piece'', ''move_type_Quiet'']"

definition example_env ::
  "nat \<Rightarrow> real list \<Rightarrow> (nat \<Rightarrow> (string \<Rightarrow> string option) option) \<Rightarrow> int option \<Rightarrow> env" where
  "example_env n coefs replies saved =
     \<lparr> get_all_mistakes_for_user_v6 = (\<lambda>u. example_rows n),
       hdbscan_fit = (\<lambda>df i. if i < 5 then (0, 1) else (- 1, 0)),
       preprocessor_fit = (\<lambda>df. True),
       preprocessor_transform = (\<lambda>df. True),
       get_feature_names_out = (\<lambda>df. example_feature_names),
       logistic_fit = (\<lambda>cluster_df control_df. coefs),
       llm_reply = (\<lambda>l. replies),
       save_habit_analysis = (\<lambda>a. saved) \<rparr>"

definition example_reply :: "string \<Rightarrow> string option" where
  "example_reply =
     map_of [(''habit_name'', ''Endgame Rook Drops''),
             (''feedback'', ''You leave pieces en prise in quiet endgames.''),
             (''tip'', ''Check what attacks the target square.'')]"

text \<open>Twenty rows; the regression finds one trigger, none, or the save fails, or the
  text service is down.\<close>

definition env_habit :: env where
  "env_habit = example_env 20 [0.8, 0.1, - 0.3] (\<lambda>n. Some example_reply) (Some 11)"

definition env_no_triggers :: env where
  "env_no_triggers = example_env 20 [0.1, 0.05, - 0.3] (\<lambda>n. Some example_reply) (Some 11)"

definition env_save_fails :: env where
  "env_save_fails = example_env 20 [0.8, 0.1, - 0.3] (\<lambda>n. Some example_reply) None"

definition env_llm_down :: env where
  "env_llm_down = example_env 20 [0.8, 0.1, - 0.3] (\<lambda>n. None) (Some 11)"

text \<open>The frames of the worked runs: all rows with their labels, the rows of cluster 0 and
  its control set.\<close>

definition example_clustered :: "clustered_row list" where
  "example_clustered = run_hdbscan_clustering env_habit (example_rows 20)"

definition example_habits :: "clustered_row list" where
  "example_habits = filter (\<lambda>r. habit_id r \<noteq> - 1) example_clustered"

definition example_cluster :: "clustered_row list" where
  "example_cluster = filter (\<lambda>r. habit_id r = 0) example_habits"

definition is_link :: "event \<Rightarrow> bool" where
  "is_link e = (case e of Link_mistakes h ids \<Rightarrow> True | _ \<Rightarrow> False)"

definition is_save :: "event \<Rightarrow> bool" where
  "is_save e = (case e of Save_habit a r \<Rightarrow> True | _ \<Rightarrow> False)"

section \<open>The dissimilarity matrix of the clustering step\<close>

text \<open>
  \<^verbatim>\<open>_run_hdbscan_clustering\<close> builds the frame \<^verbatim>\<open>df_features\<close> with the columns
  \<^verbatim>\<open>NUMERIC_COLS + CATEGORICAL_COLS\<close> and hands it to \<^verbatim>\<open>gower.gower_matrix\<close>. A row of this
  frame gives every numeric column a number and every categorical column a string.
\<close>

definition NUMERIC_COLS :: "string list" where
  "NUMERIC_COLS = [''cpl'', ''move_number'']"

definition CATEGORICAL_COLS :: "string list" where
  "CATEGORICAL_COLS =
     [''mistake_type'', ''mistake_category'', ''game_phase'', ''material_balance'',
      ''board_complexity'', ''king_self_safety'', ''king_opponent_status'',
      ''castling_status_self'', ''piece_moved'', ''move_type'', ''piece_was_attacked'',
      ''piece_was_defended'', ''piece_was_defending'', ''piece_was_pinned'']"

record feature_row =
  numeric_value :: "string \<Rightarrow> real"
  categorical_value :: "string \<Rightarrow> string"

text \<open>Modelled from the spec: the mean of a numeric column over the frame, which the
  standardisation subtracts. The source leaves the standardisation to \<^verbatim>\<open>StandardScaler\<close> of
  scikit-learn (not in src/).\<close>

definition column_mean :: "real list \<Rightarrow> real" where
  "column_mean xs = sum_list xs / real (length xs)"

text \<open>Modelled from the spec: the standard deviation of a column over the frame, the
  unit of its standardised values (\<^verbatim>\<open>StandardScaler\<close>, not in src/).\<close>

definition column_std :: "real list \<Rightarrow> real" where
  "column_std xs = sqrt (sum_list (map (\<lambda>x. (x - column_mean xs)\<^sup>2) xs) / real (length xs))"

text \<open>Modelled from the spec: a value of a column standardised to zero mean and unit
  variance (\<^verbatim>\<open>StandardScaler\<close>, not in src/); a column without spread is only centred.\<close>

definition standardize :: "real list \<Rightarrow> real \<Rightarrow> real" where
  "standardize xs x =
     (if column_std xs = 0 then x - column_mean xs
      else (x - column_mean xs) / column_std xs)"

text \<open>The frame \<^verbatim>\<open>df_features\<close>: the two numeric columns standardised over the whole
  frame, the categorical columns as strings, \<^verbatim>\<open>'None'\<close> where a value is missing.\<close>

definition df_features :: "mistake_row list \<Rightarrow> feature_row list" where
  "df_features df =
     map (\<lambda>r. \<lparr> numeric_value =
                   (\<lambda>c. if c = ''cpl''
                         then standardize (map (\<lambda>x. real_of_int (row_cpl x)) df)
                                (real_of_int (row_cpl r))
                         else if c = ''move_number''
                         then standardize (map (\<lambda>x. real_of_int (row_move_number x)) df)
                                (real_of_int (row_move_number r))
                         else 0),
                 categorical_value =
                   (\<lambda>c. case map_of (zip CATEGORICAL_COLS (row_categorical r)) c of
                           None \<Rightarrow> ''None''
                         | Some v \<Rightarrow> v) \<rparr>) df"

text \<open>Modelled from the spec: the range of a numeric column over the frame, by which Gower's
  coefficient normalises a difference in that column. It belongs to \<^verbatim>\<open>gower.gower_matrix\<close>
  of the gower package (not in src/).
\<close>

definition feature_range :: "feature_row list \<Rightarrow> string \<Rightarrow> real" where
  "feature_range X c =
     Max (set (map (\<lambda>r. numeric_value r c) X)) - Min (set (map (\<lambda>r. numeric_value r c) X))"

text \<open>Modelled from the spec: the share of one numeric column in the dissimilarity of two
  rows, the absolute difference normalised by the range of the column (nothing for a
  column without spread). It belongs to \<^verbatim>\<open>gower.gower_matrix\<close> (not in src/).
\<close>

definition numeric_difference :: "feature_row list \<Rightarrow> string \<Rightarrow> feature_row \<Rightarrow> feature_row \<Rightarrow> real" where
  "numeric_difference X c x y =
     (if feature_range X c = 0 then 0
      else \<bar>numeric_value x c - numeric_value y c\<bar> / feature_range X c)"

text \<open>Modelled from the spec: the share of one categorical column, the mismatch indicator.
  It belongs to \<^verbatim>\<open>gower.gower_matrix\<close> (not in src/).
\<close>

definition categorical_mismatch :: "string \<Rightarrow> feature_row \<Rightarrow> feature_row \<Rightarrow> real" where
  "categorical_mismatch c x y =
     (if categorical_value x c = categorical_value y c then 0 else 1)"

text \<open>Modelled from the spec: Gower's coefficient of two rows, the shares of all columns
  averaged without weights over the full feature set. It belongs to
  \<^verbatim>\<open>gower.gower_matrix\<close> (not in src/).
\<close>

definition gower_distance :: "feature_row list \<Rightarrow> feature_row \<Rightarrow> feature_row \<Rightarrow> real" where
  "gower_distance X x y =
     (sum_list (map (\<lambda>c. numeric_difference X c x y) NUMERIC_COLS)
      + sum_list (map (\<lambda>c. categorical_mismatch c x y) CATEGORICAL_COLS))
     / real (length NUMERIC_COLS + length CATEGORICAL_COLS)"

text \<open>Modelled from the spec: the all-pairs dissimilarity matrix that \<^verbatim>\<open>gower.gower_matrix\<close>
  (not in src/) returns for a frame, row \<open>i\<close> and column \<open>j\<close> holding Gower's coefficient of
  the rows \<open>i\<close> and \<open>j\<close>.
\<close>

definition gower_matrix :: "feature_row list \<Rightarrow> real list list" where
  "gower_matrix X = map (\<lambda>x. map (\<lambda>y. gower_distance X x y) X) X"

text \<open>Three rows: standardised losses -1, 0 and 1, one move number, and the third row in
  another game phase.\<close>

definition example_features :: "feature_row list" where
  "example_features =
     [\<lparr> numeric_value = (\<lambda>c. if c = ''cpl'' then - 1 else 0),
         categorical_value = (\<lambda>c. if c = ''game_phase'' then ''Endgame'' else ''False'') \<rparr>,
      \<lparr> numeric_value = (\<lambda>c. 0),
         categorical_value = (\<lambda>c. if c = ''game_phase'' then ''Endgame'' else ''False'') \<rparr>,
      \<lparr> numeric_value = (\<lambda>c. if c = ''cpl'' then 1 else 0),
         categorical_value = (\<lambda>c. if c = ''game_phase'' then ''Opening'' else ''False'') \<rparr>]"

section \<open>What every recorded mistake satisfies\<close>

lemma get_mistake_type_cases:
  "get_mistake_type c =
     (if 300 \<le> c then ''Blunder'' else if 100 \<le> c then ''Mistake''
      else if 50 \<le> c then ''Inaccuracy'' else ''Good'')"
  by (simp add: get_mistake_type_def CPL_BLUNDER_def CPL_MISTAKE_def CPL_INACCURACY_def)

lemma get_mistake_type_Good: "(get_mistake_type c \<noteq> ''Good'') = (50 \<le> c)"
  by (simp add: get_mistake_type_cases)

lemma build_mistake_fields:
  "build_mistake L uc b mv an bm c mt = (m, b') \<Longrightarrow>
     cpl m = c \<and> mistake_type m = mt \<and> prior_fen m = b \<and> move_made m = mv \<and> best_move m = bm
     \<and> mistake_category m = get_mistake_category L b mv an
     \<and> king_self_safety m = get_king_safety L b uc
     \<and> king_opponent_status m = get_king_safety L b (\<not> uc)
     \<and> b' = snd (is_piece_defending L b (from_square mv) uc)"
  by (auto simp: build_mistake_def Let_def split: prod.splits)

lemma analyze_ply_Some:
  assumes "analyze_ply L uc b mv = Inr (Some m, b')"
  shows "\<exists>best others bm pvrest ums.
           analyse_multipv L b = Some (best # others) \<and> pv best = Some (bm # pvrest)
         \<and> user_move_score L b mv (best # others) = Inr ums
         \<and> get_mistake_type (max 0 (score best - ums)) \<noteq> ''Good''
         \<and> build_mistake L uc b mv (best # others) bm (max 0 (score best - ums))
              (get_mistake_type (max 0 (score best - ums))) = (m, b')"
  using assms
  by (auto simp: analyze_ply_def Let_def
           split: option.splits list.splits sum.splits if_splits prod.splits)

text \<open>A property of the record of every ply holds for all the records of a game.\<close>

lemma analyze_moves_invariant:
  assumes step: "\<And>b mv m b'. analyze_ply L uc b mv = Inr (Some m, b') \<Longrightarrow> P m"
  shows "analyze_moves L uc b mvs acc = Inr ms \<Longrightarrow> (\<forall>m\<in>set acc. P m) \<Longrightarrow> (\<forall>m\<in>set ms. P m)"
proof (induction mvs arbitrary: b acc)
  case Nil
  then show ?case by simp
next
  case (Cons mv rest)
  show ?case
  proof (cases "turn b = uc \<and> \<not> is_game_over L b")
    case False
    with Cons.prems have "analyze_moves L uc (push L b mv) rest acc = Inr ms"
      by (auto split: if_splits)
    from Cons.IH[OF this Cons.prems(2)] show ?thesis .
  next
    case True
    show ?thesis
    proof (cases "analyze_ply L uc b mv")
      case (Inl e)
      with True Cons.prems show ?thesis by simp
    next
      case (Inr res)
      obtain r b' where res: "res = (r, b')" by (cases res)
      show ?thesis
      proof (cases r)
        case None
        with True Inr res Cons.prems
        have "analyze_moves L uc (push L b' mv) rest acc = Inr ms" by simp
        from Cons.IH[OF this Cons.prems(2)] show ?thesis .
      next
        case (Some m)
        with True Inr res Cons.prems
        have run: "analyze_moves L uc (push L b' mv) rest (acc @ [m]) = Inr ms" by simp
        from Inr res Some have "P m" using step by simp
        with Cons.prems(2) have "\<forall>x\<in>set (acc @ [m]). P x" by simp
        from Cons.IH[OF run this] show ?thesis .
      qed
    qed
  qed
qed

lemma analyze_game_fully_invariant:
  assumes step: "\<And>uc b mv m b'. analyze_ply L uc b mv = Inr (Some m, b') \<Longrightarrow> P m"
      and run: "analyze_game_fully L g username = Inr ms"
      and m: "m \<in> set ms"
  shows "P m"
proof -
  have "\<forall>m\<in>set ms. P m"
  proof (cases "lower L (header_White g) = lower L username")
    case True
    with run have "analyze_moves L WHITE (start_board g) (mainline_moves g) [] = Inr ms"
      by (simp add: analyze_game_fully_def)
    then show ?thesis using analyze_moves_invariant[of L WHITE P] step by fastforce
  next
    case False
    show ?thesis
    proof (cases "lower L (header_Black g) = lower L username")
      case True
      with False run have "analyze_moves L BLACK (start_board g) (mainline_moves g) [] = Inr ms"
        by (simp add: analyze_game_fully_def)
      then show ?thesis using analyze_moves_invariant[of L BLACK P] step by fastforce
    next
      case F2: False
      with False run have "ms = []" by (simp add: analyze_game_fully_def)
      then show ?thesis by simp
    qed
  qed
  with m show ?thesis by blast
qed

text \<open>The worked game A runs to the end and records one mistake.\<close>

lemma game_A_returns: "\<not> isl (analyze_game_fully lib_A game_A ''simothy'')"
  by code_simp

lemma game_A_length: "length (projr (analyze_game_fully lib_A game_A ''simothy'')) = 1"
  by code_simp

lemma game_A_cpl: "map cpl (projr (analyze_game_fully lib_A game_A ''simothy'')) = [900]"
  by code_simp

lemma game_A_type:
  "map mistake_type (projr (analyze_game_fully lib_A game_A ''simothy'')) = [''Blunder'']"
  by code_simp

section \<open>Mistake type\<close>

text \<open>
  Claim C1. For every centipawn loss the classification is Blunder from 300, Mistake from
  100, Inaccuracy from 50, and below 50 the move is classified as good and not recorded;
  the bounds are inclusive, so 300 is a Blunder and 299 a Mistake. Every mistake that the
  analysis of a game records carries the type of its own loss, which is at least 50.
\<close>

theorem mistake_type_thresholds:
  "get_mistake_type c =
     (if 300 \<le> c then ''Blunder'' else if 100 \<le> c then ''Mistake''
      else if 50 \<le> c then ''Inaccuracy'' else ''Good'')
   \<and> get_mistake_type 300 = ''Blunder'' \<and> get_mistake_type 299 = ''Mistake''
   \<and> (analyze_game_fully L g username = Inr ms \<and> m \<in> set ms \<longrightarrow>
        mistake_type m = get_mistake_type (cpl m) \<and> 50 \<le> cpl m)"
proof -
  have rec: "mistake_type m = get_mistake_type (cpl m) \<and> 50 \<le> cpl m"
    if run: "analyze_game_fully L g username = Inr ms" and m: "m \<in> set ms"
  proof (rule analyze_game_fully_invariant[OF _ run m])
    fix uc b mv x b'
    assume "analyze_ply L uc b mv = Inr (Some x, b')"
    from analyze_ply_Some[OF this] obtain best others bm ums where
      good: "get_mistake_type (max 0 (score best - ums)) \<noteq> ''Good''" and
      bld: "build_mistake L uc b mv (best # others) bm (max 0 (score best - ums))
              (get_mistake_type (max 0 (score best - ums))) = (x, b')"
      by blast
    from build_mistake_fields[OF bld] have
      "cpl x = max 0 (score best - ums)"
      "mistake_type x = get_mistake_type (max 0 (score best - ums))"
      by simp_all
    with good show "mistake_type x = get_mistake_type (cpl x) \<and> 50 \<le> cpl x"
      by (simp add: get_mistake_type_Good)
  qed
  show ?thesis
    using rec by (simp add: get_mistake_type_cases)
qed

theorem mistake_type_thresholds_witness:
  "\<exists>ms. analyze_game_fully lib_A game_A ''simothy'' = Inr ms \<and> length ms = 1
      \<and> list_all (\<lambda>m. mistake_type m = get_mistake_type (cpl m) \<and> 50 \<le> cpl m) ms
      \<and> map cpl ms = [900] \<and> map mistake_type ms = [''Blunder'']
      \<and> get_mistake_type 900 = ''Blunder''"
proof -
  from game_A_returns obtain ms where ms: "analyze_game_fully lib_A game_A ''simothy'' = Inr ms"
    by (cases "analyze_game_fully lib_A game_A ''simothy''") auto
  have "\<forall>m\<in>set ms. mistake_type m = get_mistake_type (cpl m) \<and> 50 \<le> cpl m"
    using mistake_type_thresholds[of 900 lib_A game_A "''simothy''" ms] ms by blast
  moreover have "get_mistake_type 900 = ''Blunder''"
    using mistake_type_thresholds[of 900] by simp
  ultimately show ?thesis
    using ms game_A_length game_A_cpl game_A_type by (auto simp: list_all_iff)
qed

section \<open>Centipawn loss\<close>

lemma find_user_move_score_find:
  "find_user_move_score mv top_lines = map_option score (find (starts_with mv) top_lines)"
  by (induction top_lines) (auto simp: starts_with_def split: option.splits list.splits)

lemma user_move_score_spec:
  "user_move_score L b mv top_lines = Inr ums \<Longrightarrow> spec_player_score L b mv top_lines = Some ums"
  by (auto simp: user_move_score_def spec_player_score_def find_user_move_score_find
           split: option.splits sum.splits if_splits)

text \<open>
  Claim C2. Every mistake that the analysis of a game records has the loss
  \<open>max 0 (best - player)\<close>: \<open>best\<close> is the score of the first line the engine returned for
  the position before the move, and \<open>player\<close> is the score of the first returned line that
  starts with the move played or, when there is none, the negated score of the
  single-variation analysis of the position after the move. So the loss is never negative.
\<close>

theorem cpl_is_clamped_score_drop:
  "analyze_game_fully L g username = Inr ms \<and> m \<in> set ms \<longrightarrow>
     (\<exists>best others player.
         analyse_multipv L (prior_fen m) = Some (best # others)
       \<and> spec_player_score L (prior_fen m) (move_made m) (best # others) = Some player
       \<and> cpl m = max 0 (score best - player))
     \<and> 0 \<le> cpl m"
proof (intro impI, elim conjE)
  assume run: "analyze_game_fully L g username = Inr ms" and m: "m \<in> set ms"
  show "(\<exists>best others player.
         analyse_multipv L (prior_fen m) = Some (best # others)
       \<and> spec_player_score L (prior_fen m) (move_made m) (best # others) = Some player
       \<and> cpl m = max 0 (score best - player))
     \<and> 0 \<le> cpl m"
  proof (rule analyze_game_fully_invariant[OF _ run m])
    fix uc b mv x b'
    assume "analyze_ply L uc b mv = Inr (Some x, b')"
    from analyze_ply_Some[OF this] obtain best others bm ums where
      an: "analyse_multipv L b = Some (best # others)" and
      ums: "user_move_score L b mv (best # others) = Inr ums" and
      bld: "build_mistake L uc b mv (best # others) bm (max 0 (score best - ums))
              (get_mistake_type (max 0 (score best - ums))) = (x, b')"
      by blast
    from build_mistake_fields[OF bld] have
      f: "cpl x = max 0 (score best - ums)" "prior_fen x = b" "move_made x = mv"
      by simp_all
    from user_move_score_spec[OF ums] an f
    show "(\<exists>best others player.
         analyse_multipv L (prior_fen x) = Some (best # others)
       \<and> spec_player_score L (prior_fen x) (move_made x) (best # others) = Some player
       \<and> cpl x = max 0 (score best - player))
     \<and> 0 \<le> cpl x"
      by auto
  qed
qed

theorem cpl_is_clamped_score_drop_witness:
  "\<exists>ms. analyze_game_fully lib_A game_A ''simothy'' = Inr ms \<and> length ms = 1
      \<and> list_all (\<lambda>m. (\<exists>best others player.
                analyse_multipv lib_A (prior_fen m) = Some (best # others)
              \<and> spec_player_score lib_A (prior_fen m) (move_made m) (best # others) = Some player
              \<and> cpl m = max 0 (score best - player))
            \<and> 0 \<le> cpl m) ms
      \<and> map cpl ms = [900]
      \<and> spec_player_score lib_A board_A move_Qd5 analysis_A = Some (- 850)"
proof -
  from game_A_returns obtain ms where ms: "analyze_game_fully lib_A game_A ''simothy'' = Inr ms"
    by (cases "analyze_game_fully lib_A game_A ''simothy''") auto
  have "\<forall>m\<in>set ms. (\<exists>best others player.
                analyse_multipv lib_A (prior_fen m) = Some (best # others)
              \<and> spec_player_score lib_A (prior_fen m) (move_made m) (best # others) = Some player
              \<and> cpl m = max 0 (score best - player))
            \<and> 0 \<le> cpl m"
    using cpl_is_clamped_score_drop[of lib_A game_A "''simothy''" ms] ms by blast
  moreover have "spec_player_score lib_A board_A move_Qd5 analysis_A = Some (- 850)"
    by code_simp
  ultimately show ?thesis
    using ms game_A_length game_A_cpl by (auto simp: list_all_iff)
qed

section \<open>King safety\<close>

text \<open>
  What \<open>get_king_safety\<close> computes: In_Check exactly when the side to move is in check.
  For the side to move this is the check of the queried king, and the rest of the answer
  counts the attacked squares next to it.
\<close>

lemma get_king_safety_In_Check:
  "(get_king_safety L b c = ''In_Check'') = king_in_check L b (turn b)"
  by (simp add: get_king_safety_def is_check_def Let_def split: option.splits)

lemma get_king_safety_side_to_move:
  "king b (turn b) = Some ks \<Longrightarrow>
     get_king_safety L b (turn b) =
       (if king_in_check L b (turn b) then ''In_Check''
        else if count_attacked L b (\<not> turn b) (attacks L b ks) > 3 then ''Exposed''
        else ''Safe'')"
  by (simp add: get_king_safety_def is_check_def Let_def)

text \<open>
  Claim C9, at position B. It is White's move and White is in check; the black king is
  not in check and no square next to it is attacked by White, so the claim asks for Safe
  when the feature is queried for Black. \<open>get_king_safety\<close> answers In_Check: its check
  test is that of the side to move, whatever colour is queried. The mistake recorded for
  White's move Ke1-d1 carries this answer as the status of the opponent's king.
\<close>

theorem king_safety_ignores_queried_color:
  "turn board_B = WHITE
   \<and> king_in_check lib_B board_B WHITE
   \<and> \<not> king_in_check lib_B board_B BLACK
   \<and> count_attacked lib_B board_B WHITE (attacks lib_B board_B 63) = 0
   \<and> get_king_safety lib_B board_B BLACK = ''In_Check''
   \<and> map king_opponent_status (projr (analyze_game_fully lib_B game_B ''simothy''))
       = [''In_Check'']"
  by code_simp

section \<open>The board after the defence query\<close>

text \<open>
  Claim C10. For every board, square and colour, the board that \<open>is_piece_defending\<close>
  leaves behind is the board it was given: on the path without a piece nothing is
  touched, and on the other path the piece taken off the square is put back on it,
  whether or not the loop was left early.
\<close>

theorem is_piece_defending_restores_board:
  "snd (is_piece_defending L b sq c) = b"
proof (cases "piece_at b sq")
  case None
  then show ?thesis by (simp add: is_piece_defending_def)
next
  case (Some p)
  then have "(piece_on b)(sq := Some p) = piece_on b"
    by (simp add: piece_at_def fun_upd_idem)
  then have "set_piece_at (remove_piece_at b sq) sq p = b"
    by (simp add: set_piece_at_def remove_piece_at_def)
  with Some show ?thesis by (simp add: is_piece_defending_def Let_def)
qed

section \<open>Mistake category\<close>

lemma PIECE_VALUES_le: "PIECE_VALUES pt \<le> 100"
  by (cases pt) simp_all

lemma values_on_Nil: "values_on b [] = []"
  by (simp add: values_on_def)

lemma values_on_Cons:
  "values_on b (s # sqs) =
     (case piece_at b s of None \<Rightarrow> values_on b sqs
      | Some p \<Rightarrow> PIECE_VALUES (piece_type p) # values_on b sqs)"
  by (simp add: values_on_def split: option.splits)

lemma lowest_attacker_value_Min:
  "lowest_attacker_value b lowest sqs =
     (if values_on b sqs = [] then lowest else min lowest (Min (set (values_on b sqs))))"
proof (induction sqs arbitrary: lowest)
  case Nil
  then show ?case by (simp add: values_on_Nil)
next
  case (Cons s sqs)
  show ?case
  proof (cases "piece_at b s")
    case None
    then show ?thesis using Cons.IH by (simp add: values_on_Cons)
  next
    case (Some p)
    then show ?thesis using Cons.IH[of "min lowest (PIECE_VALUES (piece_type p))"]
      by (auto simp: values_on_Cons min.assoc)
  qed
qed

lemma values_on_le: "v \<in> set (values_on b sqs) \<Longrightarrow> v \<le> 100"
  by (induction sqs) (auto simp: values_on_Nil values_on_Cons PIECE_VALUES_le split: option.splits)

lemma values_on_nonempty:
  "sqs \<noteq> [] \<Longrightarrow> list_all (\<lambda>s. piece_at b s \<noteq> None) sqs \<Longrightarrow> values_on b sqs \<noteq> []"
  by (cases sqs) (auto simp: values_on_Cons split: option.splits)

lemma lowest_attacker_value_cheapest:
  assumes "attackers L b c sq \<noteq> []"
      and "list_all (\<lambda>s. piece_at b s \<noteq> None) (attackers L b c sq)"
  shows "lowest_attacker_value b 100 (attackers L b c sq) = cheapest_attacker_value L b c sq"
proof -
  let ?vs = "values_on b (attackers L b c sq)"
  have ne: "?vs \<noteq> []" using assms by (rule values_on_nonempty)
  then have "Min (set ?vs) \<in> set ?vs" by (intro Min_in) simp_all
  then have "Min (set ?vs) \<le> 100" by (rule values_on_le)
  with ne show ?thesis
    by (simp add: lowest_attacker_value_Min cheapest_attacker_value_def attacker_values_def)
qed

lemma best_gap_exceeds_code:
  "best_gap_exceeds top_lines =
     (length top_lines > 1 \<and> score (top_lines ! 0) - score (top_lines ! 1)
        > TACTIC_DIFFERENCE_THRESHOLD)"
  by (auto simp: best_gap_exceeds_def TACTIC_DIFFERENCE_THRESHOLD_def split: list.splits)

text \<open>
  What \<open>is_move_a_hang\<close> computes. All its queries are made on the board before the
  move, where the piece that is about to move still stands on its old square and, as a
  rule, attacks the destination itself.
\<close>

lemma is_move_a_hang_before_move:
  assumes moved: "piece_at b (from_square mv) = Some moved"
      and occ: "list_all (\<lambda>s. piece_at b s \<noteq> None) (attackers L b (\<not> turn b) (to_square mv))"
  shows "is_move_a_hang L b mv =
           (is_attacked_by L b (\<not> turn b) (to_square mv)
            \<and> (undefended L b (turn b) (to_square mv)
               \<or> PIECE_VALUES (piece_type moved)
                   > cheapest_attacker_value L b (\<not> turn b) (to_square mv)))"
proof (cases "attackers L b (\<not> turn b) (to_square mv) = []")
  case True
  with moved show ?thesis by (simp add: is_move_a_hang_def is_attacked_by_def)
next
  case False
  from lowest_attacker_value_cheapest[OF False occ] False moved show ?thesis
    by (simp add: is_move_a_hang_def is_attacked_by_def undefended_def Let_def)
qed

lemma get_mistake_category_before_move:
  assumes moved: "piece_at b (from_square mv) = Some moved"
      and occ: "list_all (\<lambda>s. piece_at b s \<noteq> None) (attackers L b (\<not> turn b) (to_square mv))"
  shows "get_mistake_category L b mv top_lines =
           (if best_gap_exceeds top_lines then ''Missed_Tactic''
            else if is_attacked_by L b (\<not> turn b) (to_square mv)
                    \<and> (undefended L b (turn b) (to_square mv)
                       \<or> PIECE_VALUES (piece_type moved)
                           > cheapest_attacker_value L b (\<not> turn b) (to_square mv))
            then ''Hanging_Piece''
            else ''Positional_Error'')"
  using is_move_a_hang_before_move[OF moved occ]
  by (simp add: get_mistake_category_def best_gap_exceeds_code)

text \<open>
  Claim C3, at position C. White plays Ra1-a7. The best line beats the second by 20
  centipawns, so the move is no missed tactic. The black rook on h7 attacks a7, and after
  the move no white piece defends the rook on a7: the destination is attacked and
  undefended, and the claim asks for Hanging_Piece. \<open>get_mistake_category\<close> answers
  Positional_Error. It looks for defenders on the board before the move, where the rook
  on a1 itself attacks a7, so the square does not count as undefended, and a rook is not
  worth more than the attacking rook. The mistake recorded for the move carries this
  category.
\<close>

theorem hanging_test_counts_mover_as_defender:
  "piece_at board_C (from_square move_Ra7) = Some (Piece ROOK WHITE)
   \<and> best_gap_exceeds analysis_C = False
   \<and> attackers lib_C board_C BLACK (to_square move_Ra7) = [55]
   \<and> attackers lib_C board_C WHITE (to_square move_Ra7) = [from_square move_Ra7]
   \<and> attackers lib_C (push lib_C board_C move_Ra7) BLACK (to_square move_Ra7) = [55]
   \<and> undefended lib_C (push lib_C board_C move_Ra7) WHITE (to_square move_Ra7)
   \<and> spec_mistake_category lib_C board_C move_Ra7 (Piece ROOK WHITE) analysis_C
       = ''Hanging_Piece''
   \<and> is_move_a_hang lib_C board_C move_Ra7 = False
   \<and> get_mistake_category lib_C board_C move_Ra7 analysis_C = ''Positional_Error''
   \<and> map (\<lambda>m. (cpl m, mistake_type m, mistake_category m))
         (projr (analyze_game_fully lib_C game_C ''simothy''))
       = [(500, ''Blunder'', ''Positional_Error'')]"
  by code_simp

section \<open>Too few mistakes\<close>

text \<open>
  Claim C4. When fewer than 20 mistakes are fetched, the pipeline returns the result with
  no new habit and the number of fetched mistakes as total. It returns normally, and the
  only calls it has made are the clearing of the old analysis and the fetch: the
  clustering is not run. With 15 mistakes the result is \<open>(0, 15)\<close>.
\<close>

theorem insufficient_data_result:
  "length (get_all_mistakes_for_user_v6 E user_id) < 20 \<Longrightarrow>
     main_analysis_pipeline E user_id =
       (Inr \<lparr> new_habits_found = 0,
              total_mistakes = length (get_all_mistakes_for_user_v6 E user_id) \<rparr>,
        [Clear_old user_id, Fetch_all user_id])"
  by (simp add: main_analysis_pipeline_def Let_def)

lemma example_rows_15: "length (get_all_mistakes_for_user_v6 (example_env 15 [] (\<lambda>n. None) None) 7) = 15"
  by code_simp

theorem insufficient_data_result_witness:
  "length (get_all_mistakes_for_user_v6 (example_env 15 [] (\<lambda>n. None) None) 7) < 20
   \<and> main_analysis_pipeline (example_env 15 [] (\<lambda>n. None) None) 7 =
       (Inr \<lparr> new_habits_found = 0, total_mistakes = 15 \<rparr>, [Clear_old 7, Fetch_all 7])"
proof -
  have h: "length (get_all_mistakes_for_user_v6 (example_env 15 [] (\<lambda>n. None) None) 7) < 20"
    by (simp add: example_rows_15)
  from insufficient_data_result[OF h] h show ?thesis by (simp add: example_rows_15)
qed

section \<open>Trigger extraction\<close>

lemma set_dict_set: "set (dict_set d k v) \<subseteq> insert (k, v) (set d)"
  by (induction d) (auto split: if_splits)

lemma set_dict_of_items_aux:
  "set (foldl (\<lambda>d (k, v). dict_set d k v) acc items) \<subseteq> set acc \<union> set items"
proof (induction items arbitrary: acc)
  case Nil
  then show ?case by simp
next
  case (Cons kv items)
  obtain k v where kv: "kv = (k, v)" by (cases kv)
  have "set (foldl (\<lambda>d (k, v). dict_set d k v) (dict_set acc k v) items)
          \<subseteq> set (dict_set acc k v) \<union> set items"
    by (rule Cons.IH)
  also have "\<dots> \<subseteq> set acc \<union> set (kv # items)"
    using set_dict_set[of acc k v] kv by auto
  finally show ?case using kv by simp
qed

lemma set_dict_of_items: "set (dict_of_items items) \<subseteq> set items"
  using set_dict_of_items_aux[of "[]" items] by (simp add: dict_of_items_def)

lemma dict_set_fresh: "k \<notin> fst ` set d \<Longrightarrow> dict_set d k v = d @ [(k, v)]"
  by (induction d) auto

lemma dict_of_items_distinct_aux:
  "distinct (map fst (acc @ items)) \<Longrightarrow>
     foldl (\<lambda>d (k, v). dict_set d k v) acc items = acc @ items"
proof (induction items arbitrary: acc)
  case Nil
  then show ?case by simp
next
  case (Cons kv items)
  obtain k v where kv: "kv = (k, v)" by (cases kv)
  from Cons.prems kv have fresh: "k \<notin> fst ` set acc" by auto
  from Cons.prems kv have "distinct (map fst ((acc @ [(k, v)]) @ items))" by simp
  from Cons.IH[OF this] fresh kv show ?case by (simp add: dict_set_fresh)
qed

lemma dict_of_items_distinct: "distinct (map fst items) \<Longrightarrow> dict_of_items items = items"
  using dict_of_items_distinct_aux[of "[]" items] by (simp add: dict_of_items_def)

lemma distinct_fst_filter_zip:
  "distinct names \<Longrightarrow> distinct (map fst (filter P (zip names coefs)))"
proof -
  assume d: "distinct names"
  have "distinct (map fst (zip names coefs))"
    using d by (simp add: map_fst_zip_take)
  then show ?thesis by (rule distinct_map_filter)
qed

text \<open>
  Claim C5. Every extracted trigger is a feature name paired with its coefficient, and
  the coefficient is greater than 0.1. When the feature names are distinct, as those of a
  one-hot encoder are, the triggers are exactly the pairs of name and coefficient whose
  coefficient is greater than 0.1, in the order of the features. A cluster with no
  trigger makes no call to the text service and saves nothing: its round of the loop only
  trains the model, counts no habit and links nothing.
\<close>

theorem triggers_exceed_floor:
  "(\<forall>(name, coef) \<in> set (extract_triggers feature_names coefficients).
        coef > 0.1 \<and> (name, coef) \<in> set (zip feature_names coefficients))
   \<and> (distinct feature_names \<longrightarrow>
        extract_triggers feature_names coefficients
          = filter (\<lambda>(name, coef). coef > 0.1) (zip feature_names coefficients))
   \<and> (extract_triggers feature_names coefficients = [] \<longrightarrow>
        generate_and_save_feedback E user_id l cluster_df coefficients feature_names
          = (Inr None, []))
   \<and> (find_triggers_for_cluster E df
          (filter (\<lambda>r. habit_id r = l) habits_df)
          (filter (\<lambda>r. habit_id r \<noteq> l) df_clustered) = Some (coefficients, feature_names)
        \<and> extract_triggers feature_names coefficients = [] \<longrightarrow>
        cluster_step E user_id df df_clustered habits_df l = (Inr False, [Train_model l]))"
proof -
  have a: "\<forall>(name, coef) \<in> set (extract_triggers feature_names coefficients).
        coef > 0.1 \<and> (name, coef) \<in> set (zip feature_names coefficients)"
    using set_dict_of_items[of "filter (\<lambda>(name, coef). coef > 0.1) (zip feature_names coefficients)"]
    by (auto simp: extract_triggers_def)
  have b: "extract_triggers feature_names coefficients
          = filter (\<lambda>(name, coef). coef > 0.1) (zip feature_names coefficients)"
    if "distinct feature_names"
    using that by (simp add: extract_triggers_def dict_of_items_distinct distinct_fst_filter_zip)
  have c: "generate_and_save_feedback E user_id l cluster_df coefficients feature_names
          = (Inr None, [])" if "extract_triggers feature_names coefficients = []"
    using that by (simp add: generate_and_save_feedback_def)
  have d: "cluster_step E user_id df df_clustered habits_df l = (Inr False, [Train_model l])"
    if "find_triggers_for_cluster E df
          (filter (\<lambda>r. habit_id r = l) habits_df)
          (filter (\<lambda>r. habit_id r \<noteq> l) df_clustered) = Some (coefficients, feature_names)"
      and "extract_triggers feature_names coefficients = []"
    using that by (simp add: cluster_step_def generate_and_save_feedback_def truthy_def)
  from a b c d show ?thesis by blast
qed


section \<open>Saving and linking\<close>

lemma link_guarded_skip:
  "\<not> is_link e \<Longrightarrow> \<not> is_save e \<Longrightarrow> link_guarded (e # es) = link_guarded es"
  by (cases e) (simp_all add: is_link_def is_save_def)

lemma link_guarded_quiet_prefix:
  "filter is_link xs = [] \<Longrightarrow> filter is_save xs = [] \<Longrightarrow>
     link_guarded (xs @ ys) = link_guarded ys"
proof (induction xs)
  case Nil
  then show ?case by simp
next
  case (Cons e xs)
  then have "\<not> is_link e" "\<not> is_save e" by (auto split: if_splits)
  with Cons show ?case by (simp add: link_guarded_skip split: if_splits)
qed

lemma link_guarded_Save:
  "link_guarded ys \<Longrightarrow> link_guarded (Save_habit a r # ys)"
  by (cases ys rule: link_guarded.cases) simp_all

lemma link_guarded_append:
  "link_guarded xs \<Longrightarrow> link_guarded ys \<Longrightarrow> link_guarded (xs @ ys)"
  by (induction xs rule: link_guarded.induct) (simp_all add: link_guarded_Save)

lemma llm_attempts_quiet:
  "filter is_link (snd (llm_attempts reply attempts)) = []
   \<and> filter is_save (snd (llm_attempts reply attempts)) = []"
  by (induction attempts)
     (auto simp: is_link_def is_save_def split: option.splits prod.splits)

lemma generate_llm_feedback_quiet:
  "generate_llm_feedback reply = (r, ev) \<Longrightarrow> filter is_link ev = [] \<and> filter is_save ev = []"
  using llm_attempts_quiet[of reply "[0, 1, 2]"] by (simp add: generate_llm_feedback_def)

lemma generate_and_save_feedback_shape:
  assumes "generate_and_save_feedback E u l cluster_df coefs names = (res, ev)"
  shows "(filter is_link ev = [] \<and> filter is_save ev = [] \<and> (\<forall>r. res = Inr r \<longrightarrow> r = None))
       \<or> (\<exists>pre a r. ev = pre @ [Save_habit a r] \<and> res = Inr r \<and> r = save_habit_analysis E a
              \<and> filter is_link pre = [] \<and> filter is_save pre = [])"
  using assms
  by (auto simp: generate_and_save_feedback_def Let_def
           dest: generate_llm_feedback_quiet
           split: if_splits sum.splits prod.splits option.splits)

lemma link_mistakes_to_habit_cases:
  "link_mistakes_to_habit h ids = [] \<or> link_mistakes_to_habit h ids = [Link_mistakes h ids]"
  by (simp add: link_mistakes_to_habit_def)

lemma cluster_step_guarded:
  "link_guarded (snd (cluster_step E u df dfc habits l))"
proof (cases "find_triggers_for_cluster E df (filter (\<lambda>r. habit_id r = l) habits)
                (filter (\<lambda>r. habit_id r \<noteq> l) dfc)")
  case None
  then show ?thesis by (simp add: cluster_step_def)
next
  case (Some cn)
  obtain coefs names where cn: "cn = (coefs, names)" by (cases cn)
  obtain res ev where g:
    "generate_and_save_feedback E u l (filter (\<lambda>r. habit_id r = l) habits) coefs names = (res, ev)"
    by (cases "generate_and_save_feedback E u l (filter (\<lambda>r. habit_id r = l) habits) coefs names")
  from generate_and_save_feedback_shape[OF g]
  consider (quiet) "filter is_link ev = []" "filter is_save ev = []" "\<forall>r. res = Inr r \<longrightarrow> r = None"
    | (saved) pre a r where "ev = pre @ [Save_habit a r]" "res = Inr r"
        "filter is_link pre = []" "filter is_save pre = []"
    by blast
  then show ?thesis
  proof cases
    case quiet
    have "link_guarded (ev @ [])" using quiet(1,2) by (subst link_guarded_quiet_prefix) simp_all
    then have "link_guarded (Train_model l # ev)" by simp
    with quiet(3) Some cn g show ?thesis
      by (cases res) (auto simp: cluster_step_def truthy_def)
  next
    case saved
    have t: "link_guarded (Train_model l # pre @ zs) = link_guarded zs" for zs
      using link_guarded_quiet_prefix[OF saved(3,4)] by simp
    show ?thesis
    proof (cases "truthy r")
      case False
      with Some cn g saved t[of "[Save_habit a r]"] show ?thesis
        by (simp add: cluster_step_def)
    next
      case True
      then obtain i where r: "r = Some i" "i \<noteq> 0"
        by (auto simp: truthy_def split: option.splits)
      from link_mistakes_to_habit_cases[of i "map row_id (filter (\<lambda>r. habit_id r = l) habits)"]
      show ?thesis
      proof
        assume e: "link_mistakes_to_habit i (map row_id (filter (\<lambda>r. habit_id r = l) habits)) = []"
        with Some cn g saved True r t[of "[Save_habit a r]"] show ?thesis
          by (simp add: cluster_step_def)
      next
        assume e: "link_mistakes_to_habit i (map row_id (filter (\<lambda>r. habit_id r = l) habits))
                     = [Link_mistakes i (map row_id (filter (\<lambda>r. habit_id r = l) habits))]"
        with Some cn g saved True r
          t[of "[Save_habit a r, Link_mistakes i (map row_id (filter (\<lambda>r. habit_id r = l) habits))]"]
        show ?thesis
          by (simp add: cluster_step_def)
      qed
    qed
  qed
qed

lemma cluster_loop_guarded:
  "link_guarded (snd (cluster_loop E u df dfc habits ls n))"
proof (induction ls arbitrary: n)
  case Nil
  then show ?case by simp
next
  case (Cons l ls)
  obtain res ev where s: "cluster_step E u df dfc habits l = (res, ev)"
    by (cases "cluster_step E u df dfc habits l")
  have ev: "link_guarded ev" using cluster_step_guarded[of E u df dfc habits l] s by simp
  show ?case
  proof (cases res)
    case (Inl e)
    with s ev show ?thesis by simp
  next
    case (Inr counted)
    obtain r' ev' where l':
      "cluster_loop E u df dfc habits ls (if counted then n + 1 else n) = (r', ev')"
      by (cases "cluster_loop E u df dfc habits ls (if counted then n + 1 else n)")
    have "link_guarded ev'" using Cons.IH[of "if counted then n + 1 else n"] l' by simp
    with ev have "link_guarded (ev @ ev')" by (rule link_guarded_append)
    with s Inr l' show ?thesis by simp
  qed
qed

lemma main_analysis_pipeline_guarded:
  "link_guarded (snd (main_analysis_pipeline E user_id))"
proof -
  have "link_guarded (Clear_old user_id # Fetch_all user_id # Run_hdbscan # ev)"
    if "link_guarded ev" for ev using that by simp
  then show ?thesis
    using cluster_loop_guarded
    by (auto simp: main_analysis_pipeline_def Let_def split: prod.splits sum.splits
             dest!: arg_cong[where f=snd])
qed


text \<open>
  Claim C6. In the trace of every run, an update that links mistakes to a habit stands
  directly behind the save that returned this habit's id, and this id is not zero. For a
  cluster whose save returns no id (or zero) the round of the loop ends with the save:
  no habit is counted and no mistake is linked.
\<close>

theorem link_only_after_successful_save:
  "link_guarded (snd (main_analysis_pipeline E user_id))
   \<and> (find_triggers_for_cluster E df
          (filter (\<lambda>r. habit_id r = l) habits_df)
          (filter (\<lambda>r. habit_id r \<noteq> l) df_clustered) = Some (coefficients, feature_names)
        \<and> generate_and_save_feedback E user_id l (filter (\<lambda>r. habit_id r = l) habits_df)
            coefficients feature_names = (Inr new_serial_id, ev)
        \<and> \<not> truthy new_serial_id \<longrightarrow>
        cluster_step E user_id df df_clustered habits_df l = (Inr False, Train_model l # ev)
        \<and> filter is_link (Train_model l # ev) = [])"
proof -
  have "cluster_step E user_id df df_clustered habits_df l = (Inr False, Train_model l # ev)
        \<and> filter is_link (Train_model l # ev) = []"
    if f: "find_triggers_for_cluster E df
          (filter (\<lambda>r. habit_id r = l) habits_df)
          (filter (\<lambda>r. habit_id r \<noteq> l) df_clustered) = Some (coefficients, feature_names)"
      and g: "generate_and_save_feedback E user_id l (filter (\<lambda>r. habit_id r = l) habits_df)
            coefficients feature_names = (Inr new_serial_id, ev)"
      and n: "\<not> truthy new_serial_id"
  proof -
    from f g n have c: "cluster_step E user_id df df_clustered habits_df l
                          = (Inr False, Train_model l # ev)"
      by (simp add: cluster_step_def)
    from generate_and_save_feedback_shape[OF g] have "filter is_link ev = []"
      by (auto simp: is_link_def)
    with c show ?thesis by (simp add: is_link_def)
  qed
  with main_analysis_pipeline_guarded[of E user_id] show ?thesis by blast
qed


lemma example_find_triggers:
  "find_triggers_for_cluster env_save_fails (example_rows 20)
      (filter (\<lambda>r. habit_id r = 0) example_habits)
      (filter (\<lambda>r. habit_id r \<noteq> 0) example_clustered)
     = Some ([0.8, 0.1, - 0.3], example_feature_names)"
  by code_simp

lemma save_fails_run:
  "fst (main_analysis_pipeline env_save_fails 7) = Inr \<lparr> new_habits_found = 0, total_mistakes = 20 \<rparr>
   \<and> filter is_link (snd (main_analysis_pipeline env_save_fails 7)) = []
   \<and> length (filter is_save (snd (main_analysis_pipeline env_save_fails 7))) = 1"
  by code_simp

lemma save_fails_gen:
  "fst (generate_and_save_feedback env_save_fails 7 0 (filter (\<lambda>r. habit_id r = 0) example_habits)
          [0.8, 0.1, - 0.3] example_feature_names) = Inr None"
  by code_simp

theorem link_only_after_successful_save_witness:
  "link_guarded (snd (main_analysis_pipeline env_save_fails 7))
   \<and> fst (main_analysis_pipeline env_save_fails 7)
       = Inr \<lparr> new_habits_found = 0, total_mistakes = 20 \<rparr>
   \<and> filter is_link (snd (main_analysis_pipeline env_save_fails 7)) = []
   \<and> length (filter is_save (snd (main_analysis_pipeline env_save_fails 7))) = 1
   \<and> (\<exists>ev. generate_and_save_feedback env_save_fails 7 0
               (filter (\<lambda>r. habit_id r = 0) example_habits)
               [0.8, 0.1, - 0.3] example_feature_names = (Inr None, ev)
          \<and> \<not> truthy None
          \<and> cluster_step env_save_fails 7 (example_rows 20) example_clustered example_habits 0
              = (Inr False, Train_model 0 # ev)
          \<and> filter is_link (Train_model 0 # ev) = [])"
proof -
  obtain ev where g: "generate_and_save_feedback env_save_fails 7 0
               (filter (\<lambda>r. habit_id r = 0) example_habits)
               [0.8, 0.1, - 0.3] example_feature_names = (Inr None, ev)"
    using save_fails_gen
    by (cases "generate_and_save_feedback env_save_fails 7 0
               (filter (\<lambda>r. habit_id r = 0) example_habits)
               [0.8, 0.1, - 0.3] example_feature_names") auto
  have n: "\<not> truthy None" by (simp add: truthy_def)
  from link_only_after_successful_save[of env_save_fails 7 "example_rows 20" 0 example_habits
         example_clustered "[0.8, 0.1, - 0.3]" example_feature_names None ev]
       example_find_triggers g n save_fails_run
  show ?thesis by blast
qed


lemma no_triggers_find:
  "find_triggers_for_cluster env_no_triggers (example_rows 20)
      (filter (\<lambda>r. habit_id r = 0) example_habits)
      (filter (\<lambda>r. habit_id r \<noteq> 0) example_clustered)
     = Some ([0.1, 0.05, - 0.3], example_feature_names)"
  by code_simp

lemma example_triggers:
  "extract_triggers example_feature_names [0.8, 0.1, - 0.3] = [(''game_phase_Endgame'', 0.8)]
   \<and> extract_triggers example_feature_names [0.1, 0.05, - 0.3] = []
   \<and> distinct example_feature_names"
  by code_simp

lemma no_triggers_run:
  "main_analysis_pipeline env_no_triggers 7
     = (Inr \<lparr> new_habits_found = 0, total_mistakes = 20 \<rparr>,
        [Clear_old 7, Fetch_all 7, Run_hdbscan, Train_model 0])"
  by code_simp

theorem triggers_exceed_floor_witness:
  "extract_triggers example_feature_names [0.8, 0.1, - 0.3] = [(''game_phase_Endgame'', 0.8)]
   \<and> list_all (\<lambda>(name, coef). coef > 0.1
         \<and> (name, coef) \<in> set (zip example_feature_names [0.8, 0.1, - 0.3]))
       (extract_triggers example_feature_names [0.8, 0.1, - 0.3])
   \<and> distinct example_feature_names
   \<and> extract_triggers example_feature_names [0.8, 0.1, - 0.3]
       = filter (\<lambda>(name, coef). coef > 0.1) (zip example_feature_names [0.8, 0.1, - 0.3])
   \<and> extract_triggers example_feature_names [0.1, 0.05, - 0.3] = []
   \<and> generate_and_save_feedback env_no_triggers 7 0 example_cluster [0.1, 0.05, - 0.3]
        example_feature_names = (Inr None, [])
   \<and> cluster_step env_no_triggers 7 (example_rows 20) example_clustered example_habits 0
        = (Inr False, [Train_model 0])
   \<and> main_analysis_pipeline env_no_triggers 7
        = (Inr \<lparr> new_habits_found = 0, total_mistakes = 20 \<rparr>,
           [Clear_old 7, Fetch_all 7, Run_hdbscan, Train_model 0])"
proof -
  note t = example_triggers
  note th = triggers_exceed_floor[of example_feature_names "[0.8, 0.1, - 0.3]"]
  have a: "list_all (\<lambda>(name, coef). coef > 0.1
         \<and> (name, coef) \<in> set (zip example_feature_names [0.8, 0.1, - 0.3]))
       (extract_triggers example_feature_names [0.8, 0.1, - 0.3])"
    and b: "extract_triggers example_feature_names [0.8, 0.1, - 0.3]
       = filter (\<lambda>(name, coef). coef > 0.1) (zip example_feature_names [0.8, 0.1, - 0.3])"
    using th t unfolding list_all_iff by blast+
  from triggers_exceed_floor[of example_feature_names "[0.1, 0.05, - 0.3]" env_no_triggers 7 0
         example_cluster "example_rows 20" example_habits example_clustered]
       t no_triggers_find
  have c: "generate_and_save_feedback env_no_triggers 7 0 example_cluster [0.1, 0.05, - 0.3]
        example_feature_names = (Inr None, [])"
    and d: "cluster_step env_no_triggers 7 (example_rows 20) example_clustered example_habits 0
        = (Inr False, [Train_model 0])"
    by blast+
  from a b c d t no_triggers_run show ?thesis by blast
qed

section \<open>Text generation: retries and fallback\<close>

lemma generate_llm_feedback_cases:
  "generate_llm_feedback reply =
     (case reply 0 of
        Some out \<Rightarrow> (Some out, [Llm_call 0])
      | None \<Rightarrow>
         (case reply 1 of
            Some out \<Rightarrow> (Some out, [Llm_call 0, Sleep 1, Llm_call 1])
          | None \<Rightarrow>
             (case reply 2 of
                Some out \<Rightarrow> (Some out, [Llm_call 0, Sleep 1, Llm_call 1, Sleep 2, Llm_call 2])
              | None \<Rightarrow> (Some fallback_feedback,
                           [Llm_call 0, Sleep 1, Llm_call 1, Sleep 2, Llm_call 2]))))"
  by (simp add: generate_llm_feedback_def split: option.splits)

lemma generate_llm_feedback_Some: "\<exists>out ev. generate_llm_feedback reply = (Some out, ev)"
  by (simp add: generate_llm_feedback_cases split: option.splits)

lemma fallback_get:
  "dict_get fallback_feedback ''habit_name'' d1 = ''LLM Error Fallback''
   \<and> dict_get fallback_feedback ''feedback'' d2
       = ''The AI coach could not generate personalized feedback. Please check the API status.''
   \<and> dict_get fallback_feedback ''tip'' d3 = ''Review the cluster manually.''"
  by (simp add: dict_get_def fallback_feedback_def)

lemma idxmax_cpl_nonempty: "cluster_df \<noteq> [] \<Longrightarrow> \<exists>i. idxmax_cpl cluster_df = Inr i"
  by (cases cluster_df) (simp_all add: idxmax_cpl_def)

lemma generate_and_save_feedback_returns:
  assumes "cluster_df \<noteq> []"
  shows "\<exists>r. fst (generate_and_save_feedback E u l cluster_df coefs names) = Inr r"
proof -
  from idxmax_cpl_nonempty[OF assms] obtain i where i: "idxmax_cpl cluster_df = Inr i" ..
  from generate_llm_feedback_Some[of "llm_reply E l"] obtain out ev where
    g: "generate_llm_feedback (llm_reply E l) = (Some out, ev)" by blast
  show ?thesis by (simp add: generate_and_save_feedback_def Let_def i g)
qed

lemma cluster_step_returns:
  assumes "l \<in> habit_id ` set habits"
  shows "\<exists>c. fst (cluster_step E u df dfc habits l) = Inr c"
proof -
  from assms have ne: "filter (\<lambda>r. habit_id r = l) habits \<noteq> []"
    by (auto simp: filter_empty_conv)
  show ?thesis
  proof (cases "find_triggers_for_cluster E df (filter (\<lambda>r. habit_id r = l) habits)
                  (filter (\<lambda>r. habit_id r \<noteq> l) dfc)")
    case None
    then show ?thesis by (auto simp: cluster_step_def)
  next
    case (Some cn)
    obtain coefs names where cn: "cn = (coefs, names)" by (cases cn)
    from generate_and_save_feedback_returns[OF ne, of E u l coefs names] obtain r ev where
      "generate_and_save_feedback E u l (filter (\<lambda>r. habit_id r = l) habits) coefs names
         = (Inr r, ev)"
      by (cases "generate_and_save_feedback E u l (filter (\<lambda>r. habit_id r = l) habits) coefs names")
         auto
    with Some cn show ?thesis
      by (auto simp: cluster_step_def Let_def)
  qed
qed

lemma cluster_loop_returns:
  "set ls \<subseteq> habit_id ` set habits \<Longrightarrow> \<exists>k. fst (cluster_loop E u df dfc habits ls n) = Inr k"
proof (induction ls arbitrary: n)
  case Nil
  then show ?case by simp
next
  case (Cons l ls)
  from Cons.prems have "l \<in> habit_id ` set habits" by simp
  from cluster_step_returns[OF this, of E u df dfc] obtain c where
    c: "fst (cluster_step E u df dfc habits l) = Inr c" by blast
  from Cons.prems have "set ls \<subseteq> habit_id ` set habits" by simp
  from Cons.IH[OF this, of "if c then n + 1 else n"] obtain k where
    "fst (cluster_loop E u df dfc habits ls (if c then n + 1 else n)) = Inr k" by blast
  with c show ?case by (auto split: prod.splits sum.splits)
qed

lemma set_unique: "set (unique xs) = set xs"
  by (simp add: unique_def)

lemma main_analysis_pipeline_returns:
  "\<exists>res. fst (main_analysis_pipeline E user_id) = Inr res"
proof -
  let ?df = "get_all_mistakes_for_user_v6 E user_id"
  let ?dfc = "run_hdbscan_clustering E ?df"
  let ?habits = "filter (\<lambda>r. habit_id r \<noteq> - 1) ?dfc"
  have "set (unique (map habit_id ?habits)) \<subseteq> habit_id ` set ?habits"
    by (simp add: set_unique)
  from cluster_loop_returns[OF this, of E user_id ?df ?dfc 0] obtain k where
    "fst (cluster_loop E user_id ?df ?dfc ?habits (unique (map habit_id ?habits)) 0) = Inr k"
    by blast
  then show ?thesis
    by (auto simp: main_analysis_pipeline_def Let_def split: prod.splits sum.splits)
qed

text \<open>
  Claim C8. The text service is asked at most three times: a reply ends the attempts, the
  first failure is followed by a sleep of 1 second and the second by a sleep of 2
  seconds, and after the third failure the fixed placeholder is returned. When all three
  attempts fail for a cluster with triggers, the habit is saved with the placeholder's
  feedback and tip and with the placeholder's name followed by the tag of the cluster,
  and the result of the call is the answer of the save. No run ends in an error.
\<close>

theorem llm_retry_and_fallback:
  "generate_llm_feedback reply =
     (case reply 0 of
        Some out \<Rightarrow> (Some out, [Llm_call 0])
      | None \<Rightarrow>
         (case reply 1 of
            Some out \<Rightarrow> (Some out, [Llm_call 0, Sleep 1, Llm_call 1])
          | None \<Rightarrow>
             (case reply 2 of
                Some out \<Rightarrow> (Some out, [Llm_call 0, Sleep 1, Llm_call 1, Sleep 2, Llm_call 2])
              | None \<Rightarrow> (Some fallback_feedback,
                           [Llm_call 0, Sleep 1, Llm_call 1, Sleep 2, Llm_call 2]))))
   \<and> (llm_reply E l 0 = None \<and> llm_reply E l 1 = None \<and> llm_reply E l 2 = None
        \<and> extract_triggers feature_names coefficients \<noteq> [] \<and> cluster_df \<noteq> [] \<longrightarrow>
        (\<exists>args.
            generate_and_save_feedback E user_id l cluster_df coefficients feature_names
              = (Inr (save_habit_analysis E args),
                 [Llm_call 0, Sleep 1, Llm_call 1, Sleep 2, Llm_call 2,
                  Save_habit args (save_habit_analysis E args)])
          \<and> arg_habit_name args = ''LLM Error Fallback (H'' @ str_int l @ '')''
          \<and> arg_coaching_feedback args
              = ''The AI coach could not generate personalized feedback. Please check the API status.''
          \<and> arg_improvement_tip args = ''Review the cluster manually.''
          \<and> arg_triggers args = extract_triggers feature_names coefficients
          \<and> arg_hdbscan_label args = l \<and> arg_user_id args = user_id))
   \<and> (\<exists>res. fst (main_analysis_pipeline E user_id) = Inr res)"
proof -
  have save: "\<exists>args.
            generate_and_save_feedback E user_id l cluster_df coefficients feature_names
              = (Inr (save_habit_analysis E args),
                 [Llm_call 0, Sleep 1, Llm_call 1, Sleep 2, Llm_call 2,
                  Save_habit args (save_habit_analysis E args)])
          \<and> arg_habit_name args = ''LLM Error Fallback (H'' @ str_int l @ '')''
          \<and> arg_coaching_feedback args
              = ''The AI coach could not generate personalized feedback. Please check the API status.''
          \<and> arg_improvement_tip args = ''Review the cluster manually.''
          \<and> arg_triggers args = extract_triggers feature_names coefficients
          \<and> arg_hdbscan_label args = l \<and> arg_user_id args = user_id"
    if down: "llm_reply E l 0 = None" "llm_reply E l 1 = None" "llm_reply E l 2 = None"
      and tr: "extract_triggers feature_names coefficients \<noteq> []" and ne: "cluster_df \<noteq> []"
  proof -
    from idxmax_cpl_nonempty[OF ne] obtain i where i: "idxmax_cpl cluster_df = Inr i" ..
    have g: "generate_llm_feedback (llm_reply E l)
               = (Some fallback_feedback, [Llm_call 0, Sleep 1, Llm_call 1, Sleep 2, Llm_call 2])"
      using down by (simp add: generate_llm_feedback_cases)
    show ?thesis
      using tr by (simp add: generate_and_save_feedback_def Let_def i g fallback_get)
  qed
  from generate_llm_feedback_cases[of reply] save main_analysis_pipeline_returns[of E user_id]
  show ?thesis by blast
qed

lemma llm_down_run:
  "fst (main_analysis_pipeline env_llm_down 7) = Inr \<lparr> new_habits_found = 1, total_mistakes = 20 \<rparr>
   \<and> map (\<lambda>e. case e of Save_habit a r \<Rightarrow> (arg_habit_name a, arg_coaching_feedback a, arg_improvement_tip a) | _ \<Rightarrow> ([], [], []))
        (filter is_save (snd (main_analysis_pipeline env_llm_down 7)))
       = [(''LLM Error Fallback (H0)'',
           ''The AI coach could not generate personalized feedback. Please check the API status.'',
           ''Review the cluster manually.'')]
   \<and> filter is_link (snd (main_analysis_pipeline env_llm_down 7)) = [Link_mistakes 11 [1, 2, 3, 4, 5]]"
  by code_simp


lemma llm_down_facts:
  "llm_reply env_llm_down 0 0 = None \<and> llm_reply env_llm_down 0 1 = None
   \<and> llm_reply env_llm_down 0 2 = None
   \<and> extract_triggers example_feature_names [0.8, 0.1, - 0.3] \<noteq> []
   \<and> example_cluster \<noteq> []
   \<and> str_int 0 = ''0''"
  by code_simp

lemma llm_down_save: "save_habit_analysis env_llm_down args = Some 11"
  by (simp add: env_llm_down_def example_env_def)

theorem llm_retry_and_fallback_witness:
  "llm_reply env_llm_down 0 0 = None \<and> llm_reply env_llm_down 0 1 = None
   \<and> llm_reply env_llm_down 0 2 = None
   \<and> extract_triggers example_feature_names [0.8, 0.1, - 0.3] \<noteq> []
   \<and> example_cluster \<noteq> []
   \<and> generate_llm_feedback (llm_reply env_llm_down 0)
       = (Some fallback_feedback, [Llm_call 0, Sleep 1, Llm_call 1, Sleep 2, Llm_call 2])
   \<and> (\<exists>args.
          generate_and_save_feedback env_llm_down 7 0 example_cluster [0.8, 0.1, - 0.3]
            example_feature_names
            = (Inr (Some 11),
               [Llm_call 0, Sleep 1, Llm_call 1, Sleep 2, Llm_call 2, Save_habit args (Some 11)])
        \<and> arg_habit_name args = ''LLM Error Fallback (H0)''
        \<and> arg_coaching_feedback args
            = ''The AI coach could not generate personalized feedback. Please check the API status.''
        \<and> arg_improvement_tip args = ''Review the cluster manually.'')
   \<and> fst (main_analysis_pipeline env_llm_down 7)
       = Inr \<lparr> new_habits_found = 1, total_mistakes = 20 \<rparr>
   \<and> filter is_link (snd (main_analysis_pipeline env_llm_down 7))
       = [Link_mistakes 11 [1, 2, 3, 4, 5]]"
proof -
  note f = llm_down_facts
  note th = llm_retry_and_fallback[of "llm_reply env_llm_down 0" env_llm_down 0
              example_feature_names "[0.8, 0.1, - 0.3]" example_cluster 7]
  from th f have g: "generate_llm_feedback (llm_reply env_llm_down 0)
       = (Some fallback_feedback, [Llm_call 0, Sleep 1, Llm_call 1, Sleep 2, Llm_call 2])"
    by simp
  from th f obtain args where
    a: "generate_and_save_feedback env_llm_down 7 0 example_cluster [0.8, 0.1, - 0.3]
            example_feature_names
            = (Inr (save_habit_analysis env_llm_down args),
               [Llm_call 0, Sleep 1, Llm_call 1, Sleep 2, Llm_call 2,
                Save_habit args (save_habit_analysis env_llm_down args)])"
     "arg_habit_name args = ''LLM Error Fallback (H'' @ str_int 0 @ '')''"
     "arg_coaching_feedback args
            = ''The AI coach could not generate personalized feedback. Please check the API status.''"
     "arg_improvement_tip args = ''Review the cluster manually.''"
    by blast
  from a f have "generate_and_save_feedback env_llm_down 7 0 example_cluster [0.8, 0.1, - 0.3]
            example_feature_names
            = (Inr (Some 11),
               [Llm_call 0, Sleep 1, Llm_call 1, Sleep 2, Llm_call 2, Save_habit args (Some 11)])
        \<and> arg_habit_name args = ''LLM Error Fallback (H0)''
        \<and> arg_coaching_feedback args
            = ''The AI coach could not generate personalized feedback. Please check the API status.''
        \<and> arg_improvement_tip args = ''Review the cluster manually.''"
    by (simp add: llm_down_save)
  with f g llm_down_run show ?thesis by blast
qed

section \<open>Properties of the dissimilarity matrix\<close>

lemma sum_list_unit_bounds:
  fixes f :: "'a \<Rightarrow> real"
  assumes "\<And>c. c \<in> set cs \<Longrightarrow> 0 \<le> f c \<and> f c \<le> 1"
  shows "0 \<le> sum_list (map f cs) \<and> sum_list (map f cs) \<le> real (length cs)"
  using assms by (induction cs) (simp, fastforce)

lemma numeric_difference_sym: "numeric_difference X c x y = numeric_difference X c y x"
  by (simp add: numeric_difference_def abs_minus_commute)

lemma numeric_difference_self: "numeric_difference X c x x = 0"
  by (simp add: numeric_difference_def)

lemma numeric_difference_bounds:
  assumes x: "x \<in> set X" and y: "y \<in> set X"
  shows "0 \<le> numeric_difference X c x y \<and> numeric_difference X c x y \<le> 1"
proof -
  let ?col = "set (map (\<lambda>r. numeric_value r c) X)"
  have fin: "finite ?col" by simp
  have xin: "numeric_value x c \<in> ?col" and yin: "numeric_value y c \<in> ?col"
    using x y by auto
  have "Min ?col \<le> numeric_value x c" "numeric_value x c \<le> Max ?col"
       "Min ?col \<le> numeric_value y c" "numeric_value y c \<le> Max ?col"
    using fin xin yin by (auto intro: Min_le Max_ge)
  then have le: "\<bar>numeric_value x c - numeric_value y c\<bar> \<le> feature_range X c"
    by (simp add: feature_range_def)
  then have nonneg: "0 \<le> feature_range X c" by linarith
  show ?thesis
  proof (cases "feature_range X c = 0")
    case True
    then show ?thesis by (simp add: numeric_difference_def)
  next
    case False
    with nonneg have pos: "0 < feature_range X c" by simp
    with le show ?thesis by (simp add: numeric_difference_def)
  qed
qed

lemma categorical_mismatch_sym: "categorical_mismatch c x y = categorical_mismatch c y x"
  by (simp add: categorical_mismatch_def eq_commute)

lemma categorical_mismatch_self: "categorical_mismatch c x x = 0"
  by (simp add: categorical_mismatch_def)

lemma categorical_mismatch_bounds:
  "0 \<le> categorical_mismatch c x y \<and> categorical_mismatch c x y \<le> 1"
  by (simp add: categorical_mismatch_def)

lemma gower_distance_sym: "gower_distance X x y = gower_distance X y x"
  by (simp add: gower_distance_def numeric_difference_sym[of X _ x y]
                categorical_mismatch_sym[of _ x y])

lemma gower_distance_self: "gower_distance X x x = 0"
  by (simp add: gower_distance_def numeric_difference_self categorical_mismatch_self)

lemma gower_distance_bounds:
  assumes x: "x \<in> set X" and y: "y \<in> set X"
  shows "0 \<le> gower_distance X x y \<and> gower_distance X x y \<le> 1"
proof -
  let ?n = "sum_list (map (\<lambda>c. numeric_difference X c x y) NUMERIC_COLS)"
  let ?k = "sum_list (map (\<lambda>c. categorical_mismatch c x y) CATEGORICAL_COLS)"
  have n: "0 \<le> ?n \<and> ?n \<le> real (length NUMERIC_COLS)"
    by (rule sum_list_unit_bounds) (rule numeric_difference_bounds[OF x y])
  have k: "0 \<le> ?k \<and> ?k \<le> real (length CATEGORICAL_COLS)"
    by (rule sum_list_unit_bounds) (rule categorical_mismatch_bounds)
  have pos: "0 < real (length NUMERIC_COLS + length CATEGORICAL_COLS)"
    by (simp add: NUMERIC_COLS_def)
  from n k have "0 \<le> ?n + ?k" "?n + ?k \<le> real (length NUMERIC_COLS + length CATEGORICAL_COLS)"
    by simp_all
  with pos show ?thesis
    unfolding gower_distance_def by (simp add: divide_le_eq)
qed

lemma gower_matrix_entry:
  "i < length X \<Longrightarrow> j < length X \<Longrightarrow> gower_matrix X ! i ! j = gower_distance X (X ! i) (X ! j)"
  by (simp add: gower_matrix_def)

lemma df_features_length: "length (df_features df) = length df"
  by (simp add: df_features_def)

lemma gower_matrix_of_frame:
  assumes "i < length df" and "j < length df"
  shows "gower_matrix (df_features df) ! i ! j = gower_matrix (df_features df) ! j ! i
       \<and> gower_matrix (df_features df) ! i ! i = 0
       \<and> 0 \<le> gower_matrix (df_features df) ! i ! j
       \<and> gower_matrix (df_features df) ! i ! j \<le> 1"
proof -
  have x: "df_features df ! i \<in> set (df_features df)"
   and y: "df_features df ! j \<in> set (df_features df)"
    using assms by (simp_all add: df_features_length)
  from gower_distance_bounds[OF x y] assms show ?thesis
    by (simp add: gower_matrix_entry df_features_length gower_distance_self
                  gower_distance_sym[of _ "df_features df ! i" "df_features df ! j"])
qed

text \<open>
  Claim C7. For every frame of feature rows the matrix of Gower's coefficients is square
  with one row and one column per row of the frame, it is symmetric, its diagonal is
  zero, and every entry lies between 0 and 1. This holds in particular for the frame that
  the clustering step builds from the mistake records, whatever their values.
\<close>

theorem gower_matrix_symmetric_zero_diagonal_unit:
  assumes i: "i < length X" and j: "j < length X"
  shows "length (gower_matrix X) = length X
       \<and> length (gower_matrix X ! i) = length X
       \<and> gower_matrix X ! i ! j = gower_matrix X ! j ! i
       \<and> gower_matrix X ! i ! i = 0
       \<and> 0 \<le> gower_matrix X ! i ! j
       \<and> gower_matrix X ! i ! j \<le> 1"
proof -
  have "X ! i \<in> set X" "X ! j \<in> set X" using i j by simp_all
  from gower_distance_bounds[OF this] i j show ?thesis
    by (simp add: gower_matrix_entry gower_distance_self gower_distance_sym[of X "X ! i" "X ! j"])
       (simp add: gower_matrix_def)
qed

lemma example_gower_matrix:
  "gower_matrix example_features
     = [[0, 1 / 32, 1 / 8], [1 / 32, 0, 3 / 32], [1 / 8, 3 / 32, 0]]"
  by code_simp

theorem gower_matrix_symmetric_zero_diagonal_unit_witness:
  "0 < length example_features \<and> 2 < length example_features
   \<and> gower_matrix example_features
       = [[0, 1 / 32, 1 / 8], [1 / 32, 0, 3 / 32], [1 / 8, 3 / 32, 0]]
   \<and> length (gower_matrix example_features) = length example_features
   \<and> length (gower_matrix example_features ! 0) = length example_features
   \<and> gower_matrix example_features ! 0 ! 2 = gower_matrix example_features ! 2 ! 0
   \<and> gower_matrix example_features ! 0 ! 0 = 0
   \<and> 0 \<le> gower_matrix example_features ! 0 ! 2
   \<and> gower_matrix example_features ! 0 ! 2 \<le> 1"
proof -
  have i: "0 < length example_features" and j: "2 < length example_features"
    by (simp_all add: example_features_def)
  from gower_matrix_symmetric_zero_diagonal_unit[OF i j] i j example_gower_matrix
  show ?thesis by blast
qed

end
